theory Spec2Isabelle
  imports Main "HOL-Library.Word" "HOL-Library.Multiset"
begin

section \<open>The graphics settings dialog of sample 54\_GraphicsMode\<close>

text \<open>
  A shallow embedding of \<^verbatim>\<open>GraphicsSettings.cpp\<close>: the \<^verbatim>\<open>Resolution\<close> value type, the
  enumeration of display modes, and the refresh, apply and event-handler routines of the
  \<^verbatim>\<open>GraphicsSettings\<close> class.

  A C++ \<^verbatim>\<open>int\<close> is a 32-bit word read in two's complement by \<open>sint\<close>; arithmetic on it wraps
  around (signed overflow, undefined in C++, is given its usual wrap-around meaning).
  An \<^verbatim>\<open>unsigned\<close> is a 32-bit word read by \<open>unat\<close>.
\<close>

type_synonym cint = "32 word"

subsection \<open>Resolution\<close>

record Resolution =
  width :: cint
  height :: cint
  refreshrate :: cint

text \<open>The constructor \<^verbatim>\<open>Resolution(w, h, refresh = 0)\<close> and the default constructor.\<close>

definition Resolution3 :: "cint \<Rightarrow> cint \<Rightarrow> cint \<Rightarrow> Resolution" where
  "Resolution3 w h refresh = \<lparr>width = w, height = h, refreshrate = refresh\<rparr>"

definition Resolution2 :: "cint \<Rightarrow> cint \<Rightarrow> Resolution" where
  "Resolution2 w h = Resolution3 w h 0"

definition Resolution0 :: Resolution where
  "Resolution0 = \<lparr>width = 0, height = 0, refreshrate = 0\<rparr>"

text \<open>\<^verbatim>\<open>void Set(int w, int h, int r = 0)\<close> overwrites all three fields.\<close>

definition Set_res :: "cint \<Rightarrow> cint \<Rightarrow> cint \<Rightarrow> Resolution \<Rightarrow> Resolution" where
  "Set_res w h r res = res\<lparr>width := w, height := h, refreshrate := r\<rparr>"

text \<open>
  \<^verbatim>\<open>operator >\<close> and \<^verbatim>\<open>operator <\<close> compare the \<^verbatim>\<open>int\<close> products \<^verbatim>\<open>width * height\<close>.
\<close>

definition operator_gt :: "Resolution \<Rightarrow> Resolution \<Rightarrow> bool" where
  "operator_gt a rhs \<longleftrightarrow> sint (width a * height a) > sint (width rhs * height rhs)"

definition operator_lt :: "Resolution \<Rightarrow> Resolution \<Rightarrow> bool" where
  "operator_lt a rhs \<longleftrightarrow> sint (width a * height a) < sint (width rhs * height rhs)"

text \<open>The value of the C++ expression \<^verbatim>\<open>r.width * r.height\<close>, used to state properties.\<close>

definition pixel_area :: "Resolution \<Rightarrow> int" where
  "pixel_area r = sint (width r * height r)"

text \<open>The values an \<^verbatim>\<open>int\<close> can hold.\<close>

definition in_int_range :: "int \<Rightarrow> bool" where
  "in_int_range n \<longleftrightarrow> - (2 ^ 31) \<le> n \<and> n < 2 ^ 31"

subsection \<open>Strings: splitting, parsing and formatting\<close>

text \<open>
  Modelled from the spec: \<^verbatim>\<open>String::Split(char separator)\<close> of
  \<^verbatim>\<open>Urho3D/Container/Str.h\<close> is not among the sources. The spec gives the encodings
  \<^verbatim>\<open>"WxH"\<close> and \<^verbatim>\<open>"WxH@RHz"\<close>; a string is cut at every occurrence of the separator and
  the empty pieces are dropped (\<^verbatim>\<open>keepEmptyStrings\<close> defaults to false).
\<close>

fun split_pieces :: "char \<Rightarrow> string \<Rightarrow> string list" where
  "split_pieces separator [] = [[]]"
| "split_pieces separator (c # cs) =
     (if c = separator then [] # split_pieces separator cs
      else (case split_pieces separator cs of
              [] \<Rightarrow> [[c]]
            | t # ts \<Rightarrow> (c # t) # ts))"

definition Split :: "string \<Rightarrow> char \<Rightarrow> string list" where
  "Split s separator = filter (\<lambda>t. t \<noteq> []) (split_pieces separator s)"

text \<open>
  Modelled from the spec: \<^verbatim>\<open>ToInt(const String& source, int base = 10)\<close> of
  \<^verbatim>\<open>Urho3D/Core/StringUtils.h\<close> is not among the sources. It is the C library's
  \<^verbatim>\<open>strtol\<close> cast to \<^verbatim>\<open>int\<close>, a base outside 2..36 being replaced by 10: leading white
  space is skipped, an optional sign is read, then the longest run of digits of the base;
  no digits give 0 (the spec: a malformed resolution string parses to 0x0). A value outside
  the range of a 64-bit \<^verbatim>\<open>long\<close> is clamped to it, and the cast keeps the low 32 bits.
  The prefix \<^verbatim>\<open>0x\<close> that \<^verbatim>\<open>strtol\<close> accepts in base 16 is not modelled: the program
  passes the bases 0 and 10 only.
\<close>

definition isspace :: "char \<Rightarrow> bool" where
  "isspace c \<longleftrightarrow> c = CHR '' '' \<or> (9 \<le> (of_char c :: int) \<and> (of_char c :: int) \<le> 13)"

definition digit_value :: "int \<Rightarrow> char \<Rightarrow> int option" where
  "digit_value base c =
     (let n = (of_char c :: int);
          v = (if 48 \<le> n \<and> n \<le> 57 then n - 48
               else if 97 \<le> n \<and> n \<le> 122 then n - 87
               else if 65 \<le> n \<and> n \<le> 90 then n - 55
               else 36)
      in if v < base then Some v else None)"

fun strtol_digits :: "int \<Rightarrow> string \<Rightarrow> int \<Rightarrow> int" where
  "strtol_digits base [] acc = acc"
| "strtol_digits base (c # cs) acc =
     (case digit_value base c of
        None \<Rightarrow> acc
      | Some d \<Rightarrow> strtol_digits base cs (acc * base + d))"

definition strtol :: "string \<Rightarrow> int \<Rightarrow> int" where
  "strtol source base =
     (let s1 = dropWhile isspace source;
          negative = (case s1 of [] \<Rightarrow> False | c # _ \<Rightarrow> c = CHR ''-'');
          s2 = (case s1 of [] \<Rightarrow> [] | c # cs \<Rightarrow> if c = CHR ''-'' \<or> c = CHR ''+'' then cs else s1);
          n = strtol_digits base s2 0;
          v = (if negative then - n else n)
      in max (- (2 ^ 63)) (min (2 ^ 63 - 1) v))"

definition ToInt :: "string \<Rightarrow> cint \<Rightarrow> cint" where
  "ToInt source base =
     (let b = (if sint base < 2 \<or> 36 < sint base then 10 else sint base)
      in word_of_int (strtol source b))"

text \<open>
  Modelled from the spec: \<^verbatim>\<open>Urho3D::ToString(const char* format, ...)\<close> of
  \<^verbatim>\<open>Urho3D/Core/StringUtils.h\<close> is not among the sources. It formats as \<^verbatim>\<open>printf\<close>
  does; \<open>format_d\<close> is the text of one \<^verbatim>\<open>%d\<close>: the decimal digits of the value, after a
  minus sign when it is negative.
\<close>

definition digit_char :: "int \<Rightarrow> char" where
  "digit_char d = ''0123456789'' ! nat d"

function decimal :: "int \<Rightarrow> string" where
  "decimal n = (if n < 10 then [digit_char n] else decimal (n div 10) @ [digit_char (n mod 10)])"
  by pat_completeness auto
termination
  by (relation "measure nat") auto

declare decimal.simps [simp del]

definition format_d :: "cint \<Rightarrow> string" where
  "format_d v = (if sint v < 0 then CHR ''-'' # decimal (- sint v) else decimal (sint v))"

text \<open>\<^verbatim>\<open>Resolution::FromString\<close> and \<^verbatim>\<open>Resolution::ToString\<close>.\<close>

definition FromString :: "string \<Rightarrow> Resolution" where
  "FromString s =
     (let tokens = Split s CHR ''x'' in
      if length tokens > 2 then
        Resolution3 (ToInt (tokens ! 0) 0) (ToInt (tokens ! 1) 0) (ToInt (tokens ! 2) 0)
      else if length tokens = 2 then
        (let rate_tokens = Split (tokens ! 1) CHR ''@'' in
         if length rate_tokens > 1 then
           Resolution3 (ToInt (tokens ! 0) 0) (ToInt (rate_tokens ! 0) 10) (ToInt (rate_tokens ! 1) 10)
         else Resolution2 (ToInt (tokens ! 0) 0) (ToInt (tokens ! 1) 0))
      else Resolution3 0 0 0)"

definition ToString :: "Resolution \<Rightarrow> bool \<Rightarrow> string" where
  "ToString r with_rate =
     (if \<not> with_rate then format_d (width r) @ ''x'' @ format_d (height r)
      else format_d (width r) @ ''x'' @ format_d (height r) @ ''@'' @ format_d (refreshrate r) @ ''Hz'')"

subsection \<open>Display modes reported by SDL\<close>

text \<open>
  The display queries of SDL are inputs of the program. \<open>SDL_GetDisplayMode sdl monitor i\<close> is
  \<open>Some mode\<close> when the call returns 0 and fills \<^verbatim>\<open>mode\<close>, \<open>None\<close> when it fails.
\<close>

record SDL_DisplayMode =
  mode_w :: cint
  mode_h :: cint
  mode_refresh_rate :: cint

record SDL =
  SDL_GetNumVideoDisplays :: cint
  SDL_GetDisplayName :: "cint \<Rightarrow> string"
  SDL_GetNumDisplayModes :: "cint \<Rightarrow> cint"
  SDL_GetDisplayMode :: "cint \<Rightarrow> cint \<Rightarrow> SDL_DisplayMode option"

definition GetMonitorCount :: "SDL \<Rightarrow> cint" where
  "GetMonitorCount sdl = SDL_GetNumVideoDisplays sdl"

text \<open>The functor \<^verbatim>\<open>greater\<close>: \<^verbatim>\<open>a > b\<close> (renamed, \<open>greater\<close> being taken in HOL).\<close>

definition greater_fn :: "Resolution \<Rightarrow> Resolution \<Rightarrow> bool" where
  "greater_fn a b = operator_gt a b"

text \<open>
  Modelled from the spec: \<^verbatim>\<open>Sort(begin, end, compare)\<close> of \<^verbatim>\<open>Urho3D/Container/Sort.h\<close> is
  not among the sources. The spec has the resolutions sorted descending by area; the model
  sorts by insertion, placing each element before the first one that \<open>compare\<close> puts after
  it. Nothing below depends on the order it gives to elements that compare equal.
\<close>

fun sort_insert :: "('a \<Rightarrow> 'a \<Rightarrow> bool) \<Rightarrow> 'a \<Rightarrow> 'a list \<Rightarrow> 'a list" where
  "sort_insert compare t [] = [t]"
| "sort_insert compare t (y # ys) =
     (if compare t y then t # y # ys else y # sort_insert compare t ys)"

definition Sort :: "'a list \<Rightarrow> ('a \<Rightarrow> 'a \<Rightarrow> bool) \<Rightarrow> 'a list" where
  "Sort xs compare = foldl (\<lambda>sorted t. sort_insert compare t sorted) [] xs"

text \<open>
  The loop of \<^verbatim>\<open>GetFullscreenResolutions\<close> over \<^verbatim>\<open>i = 0 .. modes - 1\<close>; the counter never
  exceeds \<^verbatim>\<open>modes\<close>, so it is an unbounded integer here.
\<close>

function modes_loop ::
  "SDL \<Rightarrow> cint \<Rightarrow> cint \<Rightarrow> int \<Rightarrow> int \<Rightarrow> Resolution list \<Rightarrow> Resolution list" where
  "modes_loop sdl monitor rate modes i resolutions =
     (if i < modes then
        (case SDL_GetDisplayMode sdl monitor (word_of_int i) of
           None \<Rightarrow> modes_loop sdl monitor rate modes (i + 1) resolutions
         | Some mode \<Rightarrow>
             if rate = - 1 \<or> (rate \<noteq> - 1 \<and> mode_refresh_rate mode = rate) then
               modes_loop sdl monitor rate modes (i + 1)
                 (resolutions @ [Resolution3 (mode_w mode) (mode_h mode) (mode_refresh_rate mode)])
             else modes_loop sdl monitor rate modes (i + 1) resolutions)
      else resolutions)"
  by pat_completeness auto
termination
  by (relation "measure (\<lambda>(sdl, monitor, rate, modes, i, resolutions). nat (modes - i))") auto

declare modes_loop.simps [simp del]

definition GetFullscreenResolutions :: "SDL \<Rightarrow> cint \<Rightarrow> cint \<Rightarrow> Resolution list" where
  "GetFullscreenResolutions sdl monitor rate =
     (if sint monitor < 0 then []
      else
        (let modes = sint (SDL_GetNumDisplayModes sdl monitor);
             resolutions = modes_loop sdl monitor rate modes 0 []
         in Sort resolutions greater_fn))"

fun rates_loop :: "Resolution list \<Rightarrow> cint list \<Rightarrow> cint list" where
  "rates_loop [] rates = rates"
| "rates_loop (mode # modes) rates =
     (if refreshrate mode \<notin> set rates then rates_loop modes (rates @ [refreshrate mode])
      else rates_loop modes rates)"

definition GetFullscreenRefreshRates :: "SDL \<Rightarrow> cint \<Rightarrow> cint list" where
  "GetFullscreenRefreshRates sdl monitor =
     (if sint monitor < 0 then []
      else rates_loop (GetFullscreenResolutions sdl monitor (- 1)) [])"

text \<open>
  The display modes the claims speak of: those SDL reports for the monitor, in SDL's order,
  and the rate filter.
\<close>

definition reported_modes :: "SDL \<Rightarrow> cint \<Rightarrow> SDL_DisplayMode list" where
  "reported_modes sdl monitor =
     List.map_filter (\<lambda>i. SDL_GetDisplayMode sdl monitor (word_of_nat i))
       [0 ..< nat (sint (SDL_GetNumDisplayModes sdl monitor))]"

definition passes_rate :: "cint \<Rightarrow> SDL_DisplayMode \<Rightarrow> bool" where
  "passes_rate rate mode \<longleftrightarrow> rate = - 1 \<or> mode_refresh_rate mode = rate"

text \<open>
  The resolution a reported mode stands for, written field by field (not through the
  constructor of the program): the mode's \<^verbatim>\<open>w\<close>, \<^verbatim>\<open>h\<close> and \<^verbatim>\<open>refresh_rate\<close>.
\<close>

definition mode_resolution :: "SDL_DisplayMode \<Rightarrow> Resolution" where
  "mode_resolution mode =
     \<lparr>width = mode_w mode, height = mode_h mode, refreshrate = mode_refresh_rate mode\<rparr>"

text \<open>
  The reversing loop of \<^verbatim>\<open>FillRates\<close>, \<^verbatim>\<open>FillResolutions\<close> and \<^verbatim>\<open>RefreshVideoOptions\<close>:
  \<^verbatim>\<open>for (unsigned i = 0; i < v.Size() / 2; i++) Swap(v[i], v[v.Size() - 1 - i])\<close>.
\<close>

function reverse_loop :: "nat \<Rightarrow> 'a list \<Rightarrow> 'a list" where
  "reverse_loop i v =
     (if i < length v div 2 then
        reverse_loop (i + 1) (v[i := v ! (length v - 1 - i), length v - 1 - i := v ! i])
      else v)"
  by pat_completeness auto
termination
  by (relation "measure (\<lambda>(i, v). length v div 2 - i)") auto

declare reverse_loop.simps [simp del]

subsection \<open>Widgets and engine subsystems\<close>

text \<open>
  Modelled from the spec: the option widgets \<^verbatim>\<open>UIMultiOption\<close> and \<^verbatim>\<open>UIBoolOption\<close> of
  \<^verbatim>\<open>ui_option.h\<close> and the \<^verbatim>\<open>Button\<close> of \<^verbatim>\<open>Urho3D/UI/Button.h\<close> are not among the
  sources. The spec calls them widget state that the refresh routine writes and the apply
  routine reads: a multi option holds its list of strings and the selected index, and its
  value is the string at that index (empty when the index is outside the list); a bool
  option holds its value; a button holds its enabled flag and focus mode. Setters store
  what they are given. The event \<^verbatim>\<open>E_UIOPTION_CHANGED\<close> names the option that changed, of
  which the handler reads the name and the tags.
  (Member names lose the trailing underscore of the source, which Isabelle does not accept
  at the end of a name.)
\<close>

record UIMultiOption =
  option_strings :: "string list"
  option_index :: cint

definition SetStrings :: "string list \<Rightarrow> UIMultiOption \<Rightarrow> UIMultiOption" where
  "SetStrings strings opt = opt\<lparr>option_strings := strings\<rparr>"

definition SetOptionIndex :: "cint \<Rightarrow> UIMultiOption \<Rightarrow> UIMultiOption" where
  "SetOptionIndex i opt = opt\<lparr>option_index := i\<rparr>"

definition GetOptionIndex :: "UIMultiOption \<Rightarrow> cint" where
  "GetOptionIndex opt = option_index opt"

definition GetValue :: "UIMultiOption \<Rightarrow> string" where
  "GetValue opt =
     (let i = sint (option_index opt) in
      if 0 \<le> i \<and> i < int (length (option_strings opt)) then option_strings opt ! nat i else [])"

record UIBoolOption =
  option_value :: bool

definition SetOptionValue :: "bool \<Rightarrow> UIBoolOption \<Rightarrow> UIBoolOption" where
  "SetOptionValue v opt = opt\<lparr>option_value := v\<rparr>"

definition GetOptionValue :: "UIBoolOption \<Rightarrow> bool" where
  "GetOptionValue opt = option_value opt"

datatype FocusMode = FM_NOTFOCUSABLE | FM_RESETFOCUS | FM_FOCUSABLE | FM_FOCUSABLE_DEFOCUSABLE

record Button =
  enabled :: bool
  focusMode :: FocusMode

definition SetEnabled :: "bool \<Rightarrow> Button \<Rightarrow> Button" where
  "SetEnabled enable b = b\<lparr>enabled := enable\<rparr>"

definition SetFocusMode :: "FocusMode \<Rightarrow> Button \<Rightarrow> Button" where
  "SetFocusMode m b = b\<lparr>focusMode := m\<rparr>"

record UIOption =
  opt_name :: string
  opt_tags :: "string list"

definition GetName :: "UIOption \<Rightarrow> string" where
  "GetName option = opt_name option"

definition HasTag :: "UIOption \<Rightarrow> string \<Rightarrow> bool" where
  "HasTag option tag \<longleftrightarrow> tag \<in> set (opt_tags option)"

text \<open>
  The names and tags that \<^verbatim>\<open>InitControls\<close> gives the options of the dialog
  (\<^verbatim>\<open>SetName\<close>, \<^verbatim>\<open>SetTags\<close>).
\<close>

definition OptFullscreen :: UIOption where
  "OptFullscreen = \<lparr>opt_name = ''OptFullscreen'', opt_tags = [''video'']\<rparr>"

definition OptMonitor :: UIOption where
  "OptMonitor = \<lparr>opt_name = ''OptMonitor'', opt_tags = [''video'']\<rparr>"

definition OptResolution :: UIOption where
  "OptResolution = \<lparr>opt_name = ''OptResolution'', opt_tags = [''video'']\<rparr>"

definition OptRate :: UIOption where
  "OptRate = \<lparr>opt_name = ''OptRate'', opt_tags = [''video'']\<rparr>"

definition OptVsync :: UIOption where
  "OptVsync = \<lparr>opt_name = ''OptVsync'', opt_tags = [''video'']\<rparr>"

definition OptResizable :: UIOption where
  "OptResizable = \<lparr>opt_name = ''OptResizable'', opt_tags = [''misc-video'']\<rparr>"

definition OptTextureQuality :: UIOption where
  "OptTextureQuality = \<lparr>opt_name = ''OptTextureQuality'', opt_tags = [''graphics'']\<rparr>"

definition OptMaterialQuality :: UIOption where
  "OptMaterialQuality = \<lparr>opt_name = ''OptMaterialQuality'', opt_tags = [''graphics'']\<rparr>"

definition OptShadows :: UIOption where
  "OptShadows = \<lparr>opt_name = ''OptShadows'', opt_tags = [''graphics'']\<rparr>"

definition OptShadowQuality :: UIOption where
  "OptShadowQuality = \<lparr>opt_name = ''OptShadowQuality'', opt_tags = [''graphics'']\<rparr>"

definition OptOcclusion :: UIOption where
  "OptOcclusion = \<lparr>opt_name = ''OptOcclusion'', opt_tags = [''graphics'']\<rparr>"

definition OptInstancing :: UIOption where
  "OptInstancing = \<lparr>opt_name = ''OptInstancing'', opt_tags = [''graphics'']\<rparr>"

definition OptSpecular :: UIOption where
  "OptSpecular = \<lparr>opt_name = ''OptSpecular'', opt_tags = [''graphics'']\<rparr>"

definition OptHdr :: UIOption where
  "OptHdr = \<lparr>opt_name = ''OptHdr'', opt_tags = [''graphics'']\<rparr>"

text \<open>
  The engine is outside the program. What its getters return is an input: the records
  \<open>Graphics\<close> and \<open>Renderer\<close>. What the program asks of it is an output: the calls are
  appended, in order, to the \<open>calls\<close> of the dialog state.
\<close>

record IntVector2 =
  vec_x :: cint
  vec_y :: cint

record Graphics =
  GetFullscreen :: bool
  GetBorderless :: bool
  GetSize :: IntVector2
  GetWindowPosition :: IntVector2
  GetMonitor :: cint
  GetRefreshRate :: cint
  GetVSync :: bool
  GetResizable :: bool

record Renderer =
  GetTextureQuality :: cint
  GetMaterialQuality :: cint
  GetDrawShadows :: bool
  GetShadowMapSize :: cint
  GetShadowQuality :: cint
  GetMaxOccluderTriangles :: cint
  GetDynamicInstancing :: bool
  GetSpecularLighting :: bool
  GetHDRRendering :: bool

text \<open>
  The arguments of \<^verbatim>\<open>Graphics::SetMode(width, height, fullscreen, borderless, resizable,
  highDPI, vsync, tripleBuffer, multiSample, monitor, refreshRate)\<close>.
\<close>

record SetModeArgs =
  arg_width :: cint
  arg_height :: cint
  arg_fullscreen :: bool
  arg_borderless :: bool
  arg_resizable :: bool
  arg_highDPI :: bool
  arg_vsync :: bool
  arg_tripleBuffer :: bool
  arg_multiSample :: cint
  arg_monitor :: cint
  arg_refreshRate :: cint

datatype EngineCall =
    Graphics_SetMode SetModeArgs
  | Graphics_SetWindowPosition IntVector2
  | SDL_RaiseWindow
  | SDL_SetWindowResizable bool
  | Engine_SetMaxFps cint
  | Renderer_SetTextureQuality cint
  | Renderer_SetMaterialQuality cint
  | Renderer_SetDrawShadows bool
  | Renderer_SetShadowMapSize cint
  | Renderer_SetShadowQuality cint
  | Renderer_SetMaxOccluderTriangles cint
  | Renderer_SetDynamicInstancing bool
  | Renderer_SetSpecularLighting bool
  | Renderer_SetHDRRendering bool

datatype RenderWindowMode = RWM_WINDOWED | RWM_FULLSCREEN_WINDOW | RWM_FULLSCREEN

fun RenderWindowMode_int :: "RenderWindowMode \<Rightarrow> cint" where
  "RenderWindowMode_int RWM_WINDOWED = 0"
| "RenderWindowMode_int RWM_FULLSCREEN_WINDOW = 1"
| "RenderWindowMode_int RWM_FULLSCREEN = 2"

subsection \<open>The dialog\<close>

record GraphicsSettings =
  window_visible :: bool
  opt_monitor :: UIMultiOption
  opt_fullscreen :: UIMultiOption
  opt_rate :: UIMultiOption
  opt_resolution :: UIMultiOption
  opt_vsync :: UIBoolOption
  btn_apply :: Button
  opt_resizable :: UIBoolOption
  opt_fpslimit :: UIMultiOption
  opt_texture_quality :: UIMultiOption
  opt_material_quality :: UIMultiOption
  opt_shadows :: UIMultiOption
  opt_shadow_quality :: UIMultiOption
  opt_occlusion :: UIMultiOption
  opt_instancing :: UIMultiOption
  opt_specular :: UIMultiOption
  opt_hdr :: UIMultiOption
  refreshing :: bool
  needs_apply :: bool
  windowed_resolution :: IntVector2
  windowed_position :: IntVector2
  calls :: "EngineCall list"

definition call :: "EngineCall \<Rightarrow> GraphicsSettings \<Rightarrow> GraphicsSettings" where
  "call c st = st\<lparr>calls := calls st @ [c]\<rparr>"

text \<open>\<^verbatim>\<open>res.Size() - 1\<close>, an \<^verbatim>\<open>unsigned\<close> that wraps at 0, passed as \<^verbatim>\<open>int\<close>.\<close>

definition Size_minus_1 :: "'a list \<Rightarrow> cint" where
  "Size_minus_1 v = word_of_nat (length v) - 1"

text \<open>
  Modelled from the spec: whether and when a setter of an option widget sends
  \<^verbatim>\<open>E_UIOPTION_CHANGED\<close> is decided in \<^verbatim>\<open>ui_option.h\<close>, which is not among the sources.
  The spec speaks of flags guarding re-entrant UI refresh callbacks, so the routines that
  set option widgets take the delivery of that event as the parameter \<open>changed\<close> and run it
  after every setter of an option widget, on the option that was set and the state the
  setter left. With \<open>no_callback\<close> the event reaches no handler; that instance carries the
  name of the source routine.
\<close>

definition no_callback :: "UIOption \<Rightarrow> GraphicsSettings \<Rightarrow> GraphicsSettings" where
  "no_callback option st = st"

definition FillRates_reentrant ::
  "(UIOption \<Rightarrow> GraphicsSettings \<Rightarrow> GraphicsSettings) \<Rightarrow>
   SDL \<Rightarrow> cint \<Rightarrow> GraphicsSettings \<Rightarrow> GraphicsSettings" where
  "FillRates_reentrant changed sdl monitor st =
     (let rates = reverse_loop 0 (GetFullscreenRefreshRates sdl monitor);
          res = map format_d rates;
          st1 = changed OptRate (st\<lparr>opt_rate := SetStrings res (opt_rate st)\<rparr>)
      in changed OptRate (st1\<lparr>opt_rate := SetOptionIndex (Size_minus_1 res) (opt_rate st1)\<rparr>))"

definition FillRates :: "SDL \<Rightarrow> cint \<Rightarrow> GraphicsSettings \<Rightarrow> GraphicsSettings" where
  "FillRates sdl monitor st = FillRates_reentrant no_callback sdl monitor st"

definition FillResolutions_reentrant ::
  "(UIOption \<Rightarrow> GraphicsSettings \<Rightarrow> GraphicsSettings) \<Rightarrow>
   SDL \<Rightarrow> cint \<Rightarrow> cint \<Rightarrow> GraphicsSettings \<Rightarrow> GraphicsSettings" where
  "FillResolutions_reentrant changed sdl monitor rate st =
     (let resolutions = reverse_loop 0 (GetFullscreenResolutions sdl monitor rate);
          res = map (\<lambda>r. ToString r False) resolutions;
          st1 = changed OptResolution (st\<lparr>opt_resolution := SetStrings res (opt_resolution st)\<rparr>)
      in changed OptResolution
           (st1\<lparr>opt_resolution := SetOptionIndex (Size_minus_1 res) (opt_resolution st1)\<rparr>))"

definition FillResolutions :: "SDL \<Rightarrow> cint \<Rightarrow> cint \<Rightarrow> GraphicsSettings \<Rightarrow> GraphicsSettings" where
  "FillResolutions sdl monitor rate st = FillResolutions_reentrant no_callback sdl monitor rate st"

function monitor_names_loop :: "SDL \<Rightarrow> int \<Rightarrow> string list \<Rightarrow> string list" where
  "monitor_names_loop sdl i monitor_names =
     (if i < sint (GetMonitorCount sdl) then
        monitor_names_loop sdl (i + 1) (monitor_names @ [SDL_GetDisplayName sdl (word_of_int i)])
      else monitor_names)"
  by pat_completeness auto
termination
  by (relation "measure (\<lambda>(sdl, i, monitor_names). nat (sint (GetMonitorCount sdl) - i))") auto

declare monitor_names_loop.simps [simp del]

text \<open>
  The search of \<^verbatim>\<open>RefreshVideoOptions\<close> for the current resolution: the position of the
  first entry equal to the graphics size and refresh rate, or \<open>-1\<close>.
\<close>

fun find_resolution :: "Resolution list \<Rightarrow> IntVector2 \<Rightarrow> cint \<Rightarrow> cint \<Rightarrow> cint" where
  "find_resolution [] graphics_size refresh i = - 1"
| "find_resolution (it # rest) graphics_size refresh i =
     (if width it = vec_x graphics_size \<and> height it = vec_y graphics_size \<and> refreshrate it = refresh
      then i
      else find_resolution rest graphics_size refresh (i + 1))"

definition RefreshVideoOptions_reentrant ::
  "(UIOption \<Rightarrow> GraphicsSettings \<Rightarrow> GraphicsSettings) \<Rightarrow>
   SDL \<Rightarrow> Graphics \<Rightarrow> GraphicsSettings \<Rightarrow> GraphicsSettings" where
  "RefreshVideoOptions_reentrant changed sdl graphics st0 =
     (let st1 = st0\<lparr>refreshing := True\<rparr>;
          st2 = (if \<not> GetFullscreen graphics \<and> \<not> GetBorderless graphics
                 then st1\<lparr>windowed_resolution := GetSize graphics,
                          windowed_position := GetWindowPosition graphics\<rparr>
                 else st1);
          st3 = st2\<lparr>btn_apply :=
                  SetEnabled (needs_apply st2)
                    (SetFocusMode (if needs_apply st2 then FM_FOCUSABLE else FM_NOTFOCUSABLE)
                       (btn_apply st2))\<rparr>;
          monitor = GetMonitor graphics;
          monitor_names = monitor_names_loop sdl 0 [];
          st4a = changed OptMonitor
                   (st3\<lparr>opt_monitor := SetStrings monitor_names (opt_monitor st3)\<rparr>);
          st4 = changed OptMonitor
                  (st4a\<lparr>opt_monitor := SetOptionIndex monitor (opt_monitor st4a)\<rparr>);
          st5 = FillRates_reentrant changed sdl monitor st4;
          rate = ToInt (GetValue (opt_rate st5)) 10;
          st6 = FillResolutions_reentrant changed sdl monitor rate st5;
          mode = (if \<not> GetFullscreen graphics \<and> GetBorderless graphics
                  then RWM_FULLSCREEN_WINDOW else RWM_FULLSCREEN);
          st7 = changed OptFullscreen
                  (st6\<lparr>opt_fullscreen :=
                     SetOptionIndex (RenderWindowMode_int RWM_WINDOWED) (opt_fullscreen st6)\<rparr>);
          graphics_size = GetSize graphics;
          res_index =
            (if GetFullscreen graphics then
               (let refresh = GetRefreshRate graphics;
                    resolutions = reverse_loop 0
                      (GetFullscreenResolutions sdl (GetOptionIndex (opt_monitor st7))
                         (ToInt (GetValue (opt_rate st7)) 10))
                in find_resolution resolutions graphics_size refresh 0)
             else - 1);
          st8 = (if res_index \<noteq> - 1
                 then changed OptResolution
                        (st7\<lparr>opt_resolution := SetOptionIndex res_index (opt_resolution st7)\<rparr>)
                 else st7);
          st9 = changed OptVsync
                  (st8\<lparr>opt_vsync := SetOptionValue (GetVSync graphics) (opt_vsync st8)\<rparr>);
          st10 = changed OptResizable
                   (st9\<lparr>opt_resizable := SetOptionValue (GetResizable graphics) (opt_resizable st9)\<rparr>)
      in st10\<lparr>refreshing := False\<rparr>)"

definition RefreshVideoOptions :: "SDL \<Rightarrow> Graphics \<Rightarrow> GraphicsSettings \<Rightarrow> GraphicsSettings" where
  "RefreshVideoOptions sdl graphics st0 = RefreshVideoOptions_reentrant no_callback sdl graphics st0"

definition ApplyVideoOptions :: "GraphicsSettings \<Rightarrow> GraphicsSettings" where
  "ApplyVideoOptions st =
     (let fullscreen = GetOptionIndex (opt_fullscreen st);
          res0 = Resolution0;
          res1 = (if fullscreen = 0
                  then Set_res (vec_x (windowed_resolution st)) (vec_y (windowed_resolution st)) 0 res0
                  else res0);
          res2 = (if fullscreen = 1 then Resolution2 0 0
                  else if fullscreen = 2
                  then (FromString (GetValue (opt_resolution st)))
                         \<lparr>refreshrate := ToInt (GetValue (opt_rate st)) 10\<rparr>
                  else res1);
          st1 = call (Graphics_SetMode
                  \<lparr>arg_width = width res2, arg_height = height res2,
                   arg_fullscreen = (fullscreen = 2), arg_borderless = (fullscreen = 1),
                   arg_resizable = True, arg_highDPI = False,
                   arg_vsync = GetOptionValue (opt_vsync st), arg_tripleBuffer = False,
                   arg_multiSample = 0, arg_monitor = GetOptionIndex (opt_monitor st),
                   arg_refreshRate = refreshrate res2\<rparr>) st;
          st2 = (if fullscreen = 0
                 then call (Graphics_SetWindowPosition (windowed_position st1)) st1
                 else st1)
      in call SDL_RaiseWindow st2)"

text \<open>\<^verbatim>\<open>GetShadowMapSize() / 512\<close>: the division of C++ truncates towards zero.\<close>

definition int_div :: "cint \<Rightarrow> cint \<Rightarrow> cint" where
  "int_div a b = word_of_int (sgn (sint a) * sgn (sint b) * (\<bar>sint a\<bar> div \<bar>sint b\<bar>))"

definition RefreshGraphicsOptions_reentrant ::
  "(UIOption \<Rightarrow> GraphicsSettings \<Rightarrow> GraphicsSettings) \<Rightarrow>
   Renderer \<Rightarrow> GraphicsSettings \<Rightarrow> GraphicsSettings" where
  "RefreshGraphicsOptions_reentrant changed renderer st0 =
     (let st1 = st0\<lparr>refreshing := True\<rparr>;
          st2 = changed OptTextureQuality
                  (st1\<lparr>opt_texture_quality :=
                     SetOptionIndex (GetTextureQuality renderer) (opt_texture_quality st1)\<rparr>);
          st3 = changed OptMaterialQuality
                  (st2\<lparr>opt_material_quality :=
                     SetOptionIndex (GetMaterialQuality renderer) (opt_material_quality st2)\<rparr>);
          st4 = (if GetDrawShadows renderer
                 then changed OptShadows
                        (st3\<lparr>opt_shadows :=
                           SetOptionIndex (int_div (GetShadowMapSize renderer) 512) (opt_shadows st3)\<rparr>)
                 else changed OptShadows
                        (st3\<lparr>opt_shadows := SetOptionIndex 0 (opt_shadows st3)\<rparr>));
          st5 = changed OptShadowQuality
                  (st4\<lparr>opt_shadow_quality :=
                     SetOptionIndex (GetShadowQuality renderer) (opt_shadow_quality st4)\<rparr>);
          st6 = changed OptOcclusion
                  (st5\<lparr>opt_occlusion :=
                     SetOptionIndex (if 0 < sint (GetMaxOccluderTriangles renderer) then 1 else 0)
                       (opt_occlusion st5)\<rparr>);
          st7 = changed OptInstancing
                  (st6\<lparr>opt_instancing :=
                     SetOptionIndex (if GetDynamicInstancing renderer then 1 else 0)
                       (opt_instancing st6)\<rparr>);
          st8 = changed OptSpecular
                  (st7\<lparr>opt_specular :=
                     SetOptionIndex (if GetSpecularLighting renderer then 1 else 0)
                       (opt_specular st7)\<rparr>);
          st9 = changed OptHdr
                  (st8\<lparr>opt_hdr :=
                     SetOptionIndex (if GetHDRRendering renderer then 1 else 0) (opt_hdr st8)\<rparr>)
      in st9\<lparr>refreshing := False\<rparr>)"

definition RefreshGraphicsOptions :: "Renderer \<Rightarrow> GraphicsSettings \<Rightarrow> GraphicsSettings" where
  "RefreshGraphicsOptions renderer st0 = RefreshGraphicsOptions_reentrant no_callback renderer st0"

definition ApplyGraphicsOptions :: "GraphicsSettings \<Rightarrow> GraphicsSettings" where
  "ApplyGraphicsOptions st =
     (if refreshing st then st
      else
        (let st1 = call (Renderer_SetTextureQuality (GetOptionIndex (opt_texture_quality st))) st;
             st2 = call (Renderer_SetMaterialQuality (GetOptionIndex (opt_material_quality st1))) st1;
             st3 = call (Renderer_SetDrawShadows (GetOptionIndex (opt_shadows st2) \<noteq> 0)) st2;
             st4 = call (Renderer_SetShadowMapSize (GetOptionIndex (opt_shadows st3) * 512)) st3;
             st5 = call (Renderer_SetShadowQuality (GetOptionIndex (opt_shadow_quality st4))) st4;
             st6 = call (Renderer_SetMaxOccluderTriangles
                     (if 0 < sint (GetOptionIndex (opt_occlusion st5)) then 5000 else 0)) st5;
             st7 = call (Renderer_SetDynamicInstancing
                     (0 < sint (GetOptionIndex (opt_instancing st6)))) st6;
             st8 = call (Renderer_SetSpecularLighting
                     (0 < sint (GetOptionIndex (opt_specular st7)))) st7
         in call (Renderer_SetHDRRendering (0 < sint (GetOptionIndex (opt_hdr st8)))) st8))"

definition HandleClosePressed :: "GraphicsSettings \<Rightarrow> GraphicsSettings" where
  "HandleClosePressed st = st\<lparr>window_visible := False\<rparr>"

definition HandleTabChanged ::
  "SDL \<Rightarrow> Graphics \<Rightarrow> Renderer \<Rightarrow> cint \<Rightarrow> GraphicsSettings \<Rightarrow> GraphicsSettings" where
  "HandleTabChanged sdl graphics renderer index st =
     (if index = 0 then RefreshVideoOptions sdl graphics st
      else if index = 1 then RefreshGraphicsOptions renderer st
      else st)"

definition HandleOptionChanged :: "SDL \<Rightarrow> UIOption \<Rightarrow> GraphicsSettings \<Rightarrow> GraphicsSettings" where
  "HandleOptionChanged sdl option st =
     (if refreshing st then st
      else
        (let name = GetName option;
             st1 = (if name = ''OptMonitor'' then
                      (let monitor = GetOptionIndex (opt_monitor st);
                           s = FillRates sdl monitor st;
                           rate = ToInt (GetValue (opt_rate s)) 10
                       in FillResolutions sdl monitor rate s)
                    else if name = ''OptRate'' then
                      (let rate = ToInt (GetValue (opt_rate st)) 10;
                           monitor = GetOptionIndex (opt_monitor st)
                       in FillResolutions sdl monitor rate st)
                    else st);
             st2 = st1\<lparr>needs_apply := (needs_apply st1 \<or> HasTag option ''video'')\<rparr>;
             st3 = st2\<lparr>btn_apply :=
                     SetEnabled (needs_apply st2)
                       (SetFocusMode (if needs_apply st2 then FM_FOCUSABLE else FM_NOTFOCUSABLE)
                          (btn_apply st2))\<rparr>;
             st4 = (if HasTag option ''misc-video'' then
                      (let s = call (SDL_SetWindowResizable (GetOptionValue (opt_resizable st3))) st3;
                           fps_limit = (if 0 < sint (GetOptionIndex (opt_fpslimit s))
                                        then ToInt (GetValue (opt_fpslimit s)) 10 else 0)
                       in call (Engine_SetMaxFps fps_limit) s)
                    else st3)
         in if HasTag option ''graphics'' then ApplyGraphicsOptions st4 else st4))"

definition HandleApply :: "GraphicsSettings \<Rightarrow> GraphicsSettings" where
  "HandleApply st = (ApplyVideoOptions st)\<lparr>needs_apply := False\<rparr>"

subsection \<open>Vocabulary of the properties\<close>

text \<open>Lists of resolutions in non-increasing and in non-decreasing order of pixel area.\<close>

definition descending :: "Resolution list \<Rightarrow> bool" where
  "descending rs = sorted_wrt (\<lambda>a b. pixel_area b \<le> pixel_area a) rs"

definition ascending :: "Resolution list \<Rightarrow> bool" where
  "ascending rs = sorted_wrt (\<lambda>a b. pixel_area a \<le> pixel_area b) rs"

text \<open>The characters \<^verbatim>\<open>0\<close> to \<^verbatim>\<open>9\<close>.\<close>

definition plain_digit :: "char \<Rightarrow> bool" where
  "plain_digit c \<longleftrightarrow> c \<in> set ''0123456789''"

text \<open>
  A numeric field is malformed when no number starts it: after white space and an optional
  sign there is no decimal digit.
\<close>

definition malformed_number :: "string \<Rightarrow> bool" where
  "malformed_number t =
     (let s1 = dropWhile isspace t;
          s2 = (case s1 of [] \<Rightarrow> [] | c # cs \<Rightarrow> if c = CHR ''-'' \<or> c = CHR ''+'' then cs else s1)
      in case s2 of [] \<Rightarrow> True | c # _ \<Rightarrow> digit_value 10 c = None)"

text \<open>
  A well-formed numeric field in the ordinary sense: an optional sign, then one or more
  decimal digits, and nothing else.
\<close>

definition well_formed_number :: "string \<Rightarrow> bool" where
  "well_formed_number t =
     (let digits = (case t of [] \<Rightarrow> [] | c # cs \<Rightarrow> if c = CHR ''-'' \<or> c = CHR ''+'' then cs else t)
      in digits \<noteq> [] \<and> list_all plain_digit digits)"

text \<open>
  An example host: one monitor with four display modes, of which SDL fails to report the
  second.
\<close>

definition example_sdl :: SDL where
  "example_sdl =
     \<lparr>SDL_GetNumVideoDisplays = 1,
      SDL_GetDisplayName = (\<lambda>i. ''Monitor''),
      SDL_GetNumDisplayModes = (\<lambda>monitor. 4),
      SDL_GetDisplayMode = (\<lambda>monitor i.
        if i = 0 then Some \<lparr>mode_w = 800, mode_h = 600, mode_refresh_rate = 60\<rparr>
        else if i = 1 then None
        else if i = 2 then Some \<lparr>mode_w = 1920, mode_h = 1080, mode_refresh_rate = 60\<rparr>
        else Some \<lparr>mode_w = 1024, mode_h = 768, mode_refresh_rate = 75\<rparr>)\<rparr>"

text \<open>
  An example dialog: the option lists that \<^verbatim>\<open>InitControls\<close> sets, every index 0, the
  Apply button enabled, nothing pending.
\<close>

definition example_dialog :: GraphicsSettings where
  "example_dialog =
     \<lparr>window_visible = True,
      opt_monitor = \<lparr>option_strings = [], option_index = 0\<rparr>,
      opt_fullscreen =
        \<lparr>option_strings = [''Window'', ''Borderless Window'', ''Fullscreen''], option_index = 0\<rparr>,
      opt_rate = \<lparr>option_strings = [], option_index = 0\<rparr>,
      opt_resolution = \<lparr>option_strings = [], option_index = 0\<rparr>,
      opt_vsync = \<lparr>option_value = False\<rparr>,
      btn_apply = \<lparr>enabled = True, focusMode = FM_FOCUSABLE\<rparr>,
      opt_resizable = \<lparr>option_value = False\<rparr>,
      opt_fpslimit =
        \<lparr>option_strings = [''Unlimited'', ''30'', ''60'', ''75'', ''100'', ''144'', ''240''],
         option_index = 0\<rparr>,
      opt_texture_quality = \<lparr>option_strings = [''Low'', ''Medium'', ''High''], option_index = 0\<rparr>,
      opt_material_quality = \<lparr>option_strings = [''Low'', ''Medium'', ''High''], option_index = 0\<rparr>,
      opt_shadows = \<lparr>option_strings = [''Off'', ''Low'', ''Medium'', ''High''], option_index = 0\<rparr>,
      opt_shadow_quality =
        \<lparr>option_strings = [''Simple 16 bit'', ''Simple 24 bit'', ''PCF 16 bit'', ''PCF 24 bit'',
           ''VSM'', ''Blur VSM''], option_index = 0\<rparr>,
      opt_occlusion = \<lparr>option_strings = [''Off'', ''On''], option_index = 0\<rparr>,
      opt_instancing = \<lparr>option_strings = [''Off'', ''On''], option_index = 0\<rparr>,
      opt_specular = \<lparr>option_strings = [''Off'', ''On''], option_index = 0\<rparr>,
      opt_hdr = \<lparr>option_strings = [''Off'', ''On''], option_index = 0\<rparr>,
      refreshing = False,
      needs_apply = False,
      windowed_resolution = \<lparr>vec_x = 1024, vec_y = 768\<rparr>,
      windowed_position = \<lparr>vec_x = 100, vec_y = 50\<rparr>,
      calls = []\<rparr>"

text \<open>An engine that reports a fullscreen mode of 1920x1080 at 60 Hz on monitor 0.\<close>

definition example_fullscreen_graphics :: Graphics where
  "example_fullscreen_graphics =
     \<lparr>GetFullscreen = True, GetBorderless = False,
      GetSize = \<lparr>vec_x = 1920, vec_y = 1080\<rparr>,
      GetWindowPosition = \<lparr>vec_x = 0, vec_y = 0\<rparr>,
      GetMonitor = 0, GetRefreshRate = 60, GetVSync = True, GetResizable = False\<rparr>"

text \<open>A renderer with shadows of map size 1024 and every option on.\<close>

definition example_renderer :: Renderer where
  "example_renderer =
     \<lparr>GetTextureQuality = 2, GetMaterialQuality = 1, GetDrawShadows = True,
      GetShadowMapSize = 1024, GetShadowQuality = 3, GetMaxOccluderTriangles = 5000,
      GetDynamicInstancing = True, GetSpecularLighting = True, GetHDRRendering = True\<rparr>"

section \<open>Properties\<close>

subsection \<open>Ordering by pixel area\<close>

lemma pixel_area_exact:
  assumes "in_int_range (sint (width r) * sint (height r))"
  shows "pixel_area r = sint (width r) * sint (height r)"
proof -
  have "sint (width r * height r) = signed_take_bit 31 (sint (width r) * sint (height r))"
    by (simp add: sint_word_ariths)
  also have "\<dots> = sint (width r) * sint (height r)"
    using assms by (simp add: in_int_range_def signed_take_bit_int_eq_self)
  finally show ?thesis by (simp add: pixel_area_def)
qed

text \<open>
  C5. For every two resolutions \<open>a\<close> and \<open>b\<close>, \<open>a < b\<close> holds iff
  \<open>a.width * a.height < b.width * b.height\<close> and \<open>a > b\<close> holds iff
  \<open>a.width * a.height > b.width * b.height\<close> (the products being the program's \<^verbatim>\<open>int\<close>
  products); the refresh rate never influences the ordering, and two resolutions of equal
  pixel area are incomparable by both operators. Where the exact products fit an \<^verbatim>\<open>int\<close>,
  the operators compare the exact products.
\<close>

theorem Resolution_order_by_area:
  "(operator_lt a b \<longleftrightarrow> sint (width a * height a) < sint (width b * height b)) \<and>
   (operator_gt a b \<longleftrightarrow> sint (width a * height a) > sint (width b * height b)) \<and>
   operator_lt (a\<lparr>refreshrate := ra\<rparr>) (b\<lparr>refreshrate := rb\<rparr>) = operator_lt a b \<and>
   operator_gt (a\<lparr>refreshrate := ra\<rparr>) (b\<lparr>refreshrate := rb\<rparr>) = operator_gt a b \<and>
   (if pixel_area a = pixel_area b
    then \<not> operator_lt a b \<and> \<not> operator_gt a b \<and> \<not> operator_lt b a \<and> \<not> operator_gt b a
    else operator_lt a b \<or> operator_gt a b) \<and>
   (in_int_range (sint (width a) * sint (height a)) \<and>
    in_int_range (sint (width b) * sint (height b)) \<longrightarrow>
      (operator_lt a b \<longleftrightarrow> sint (width a) * sint (height a) < sint (width b) * sint (height b)) \<and>
      (operator_gt a b \<longleftrightarrow> sint (width a) * sint (height a) > sint (width b) * sint (height b)))"
proof -
  have exact: "in_int_range (sint (width a) * sint (height a)) \<and>
      in_int_range (sint (width b) * sint (height b)) \<longrightarrow>
    pixel_area a = sint (width a) * sint (height a) \<and>
    pixel_area b = sint (width b) * sint (height b)"
    by (simp add: pixel_area_exact)
  show ?thesis
    using exact by (auto simp: operator_lt_def operator_gt_def pixel_area_def)
qed

theorem Resolution_order_by_area_witness:
  "in_int_range (sint (800 :: cint) * sint (600 :: cint)) \<and>
   in_int_range (sint (1024 :: cint) * sint (768 :: cint)) \<and>
   operator_lt (Resolution3 800 600 60) (Resolution3 1024 768 75) \<and>
   \<not> operator_gt (Resolution3 800 600 60) (Resolution3 1024 768 75) \<and>
   \<not> operator_lt (Resolution3 800 600 60) (Resolution3 600 800 144) \<and>
   \<not> operator_gt (Resolution3 800 600 60) (Resolution3 600 800 144)"
  using Resolution_order_by_area [of "Resolution3 800 600 60" "Resolution3 1024 768 75" 0 0]
    Resolution_order_by_area [of "Resolution3 800 600 60" "Resolution3 600 800 144" 0 0]
  by (simp add: Resolution3_def pixel_area_def in_int_range_def)

subsection \<open>Enumerating display modes\<close>

lemma rates_loop_distinct: "distinct rates \<Longrightarrow> distinct (rates_loop modes rates)"
  by (induction modes arbitrary: rates) auto

lemma rates_loop_set: "set (rates_loop modes rates) = set rates \<union> refreshrate ` set modes"
  by (induction modes arbitrary: rates) auto

lemma mset_sort_insert: "mset (sort_insert compare t xs) = add_mset t (mset xs)"
  by (induction xs) auto

lemma mset_Sort_from:
  "mset (foldl (\<lambda>sorted t. sort_insert compare t sorted) acc xs) = mset acc + mset xs"
  by (induction xs arbitrary: acc) (auto simp: mset_sort_insert)

lemma mset_Sort: "mset (Sort xs compare) = mset xs"
  by (simp add: Sort_def mset_Sort_from)

lemma set_sort_insert: "set (sort_insert compare t xs) = insert t (set xs)"
  by (induction xs) auto

lemma descending_sort_insert:
  "descending xs \<Longrightarrow> descending (sort_insert greater_fn t xs)"
  unfolding descending_def
  by (induction xs)
    (auto simp: set_sort_insert greater_fn_def operator_gt_def pixel_area_def)

lemma descending_Sort_from:
  "descending acc \<Longrightarrow> descending (foldl (\<lambda>sorted t. sort_insert greater_fn t sorted) acc xs)"
  by (induction xs arbitrary: acc) (auto simp: descending_sort_insert)

lemma descending_Sort: "descending (Sort xs greater_fn)"
proof -
  have "descending []" by (simp add: descending_def)
  then show ?thesis by (simp add: Sort_def descending_Sort_from)
qed

lemma modes_loop_eq:
  "i \<le> n \<Longrightarrow>
   modes_loop sdl monitor rate (int n) (int i) acc =
     acc @ map mode_resolution (filter (passes_rate rate)
       (List.map_filter (\<lambda>k. SDL_GetDisplayMode sdl monitor (word_of_nat k)) [i ..< n]))"
proof (induction "n - i" arbitrary: i acc)
  case 0
  then have "i = n" by simp
  then show ?case by (simp add: modes_loop.simps [of _ _ _ "int n" "int n"] List.map_filter_simps)
next
  case (Suc d)
  then have lt: "i < n" and d: "d = n - Suc i" and le: "Suc i \<le> n" by simp_all
  have step: "int i + 1 = int (Suc i)" by simp
  note IH = Suc.hyps(1) [OF d le, unfolded step [symmetric]]
  show ?case
    using lt
    by (subst modes_loop.simps)
      (simp add: IH upt_conv_Cons List.map_filter_simps passes_rate_def mode_resolution_def
        Resolution3_def
        split: option.split)
qed

lemma modes_loop_reported:
  "modes_loop sdl monitor rate (sint (SDL_GetNumDisplayModes sdl monitor)) 0 [] =
     map mode_resolution (filter (passes_rate rate) (reported_modes sdl monitor))"
proof (cases "0 \<le> sint (SDL_GetNumDisplayModes sdl monitor)")
  case True
  then have "sint (SDL_GetNumDisplayModes sdl monitor) =
      int (nat (sint (SDL_GetNumDisplayModes sdl monitor)))" by simp
  then show ?thesis
    using modes_loop_eq [of 0 "nat (sint (SDL_GetNumDisplayModes sdl monitor))" sdl monitor rate "[]"]
    by (simp add: reported_modes_def)
next
  case False
  then show ?thesis
    by (subst modes_loop.simps) (simp add: reported_modes_def List.map_filter_simps)
qed

text \<open>
  C1. For every monitor index \<open>\<ge> 0\<close> and every requested rate, \<^verbatim>\<open>GetFullscreenResolutions\<close>
  returns exactly the display modes reported for that monitor that pass the rate filter
  (rate \<open>-1\<close>, or the mode's refresh rate equal to the rate), each once per report, in
  non-increasing order of pixel area.
\<close>

theorem GetFullscreenResolutions_filtered_sorted:
  assumes "0 \<le> sint monitor"
  shows "mset (GetFullscreenResolutions sdl monitor rate) =
           mset (map mode_resolution (filter (passes_rate rate) (reported_modes sdl monitor))) \<and>
         descending (GetFullscreenResolutions sdl monitor rate)"
  using assms
  by (simp add: GetFullscreenResolutions_def Let_def mset_Sort modes_loop_reported descending_Sort)

theorem GetFullscreenResolutions_filtered_sorted_witness:
  "0 \<le> sint (0 :: cint) \<and>
   GetFullscreenResolutions example_sdl 0 60 =
     [\<lparr>width = 1920, height = 1080, refreshrate = 60\<rparr>,
      \<lparr>width = 800, height = 600, refreshrate = 60\<rparr>] \<and>
   mset (GetFullscreenResolutions example_sdl 0 60) =
     mset (map mode_resolution (filter (passes_rate 60) (reported_modes example_sdl 0))) \<and>
   descending (GetFullscreenResolutions example_sdl 0 60)"
proof -
  have "GetFullscreenResolutions example_sdl 0 60 =
     [\<lparr>width = 1920, height = 1080, refreshrate = 60\<rparr>,
      \<lparr>width = 800, height = 600, refreshrate = 60\<rparr>]"
    by code_simp
  then show ?thesis
    using GetFullscreenResolutions_filtered_sorted [of 0 example_sdl 60] by simp
qed

text \<open>
  C10. For every monitor index \<open>< 0\<close>, \<^verbatim>\<open>GetFullscreenResolutions\<close> returns the empty list
  for any rate and \<^verbatim>\<open>GetFullscreenRefreshRates\<close> returns the empty list; and the list
  returned by \<^verbatim>\<open>GetFullscreenRefreshRates\<close> never holds a refresh rate twice.
\<close>

theorem negative_monitor_empty_and_rates_distinct:
  "(sint monitor < 0 \<longrightarrow>
      GetFullscreenResolutions sdl monitor rate = [] \<and> GetFullscreenRefreshRates sdl monitor = []) \<and>
   distinct (GetFullscreenRefreshRates sdl m)"
  by (simp add: GetFullscreenResolutions_def GetFullscreenRefreshRates_def rates_loop_distinct)

theorem negative_monitor_empty_and_rates_distinct_witness:
  "sint (- 1 :: cint) < 0 \<and>
   GetFullscreenResolutions example_sdl (- 1) 60 = [] \<and>
   GetFullscreenRefreshRates example_sdl (- 1) = [] \<and>
   GetFullscreenRefreshRates example_sdl 0 = [60, 75] \<and>
   distinct (GetFullscreenRefreshRates example_sdl 0)"
proof -
  have "GetFullscreenRefreshRates example_sdl 0 = [60, 75]"
    by code_simp
  then show ?thesis
    using negative_monitor_empty_and_rates_distinct [of "- 1" example_sdl 60 0] by simp
qed

subsection \<open>The reversing loop\<close>

lemma reverse_loop_middle:
  "length a = i \<Longrightarrow> length b = i \<Longrightarrow> reverse_loop i (a @ m @ b) = a @ rev m @ b"
proof (induction "length m" arbitrary: a m b i rule: less_induct)
  case less
  consider (short) "length m \<le> 1" | (long) x m' y where "m = x # m' @ [y]"
  proof (cases m)
    case Nil
    then show ?thesis using that(1) by simp
  next
    case (Cons x xs)
    show ?thesis
    proof (cases xs rule: rev_cases)
      case Nil
      with Cons show ?thesis using that(1) by simp
    next
      case (snoc m' y)
      with Cons show ?thesis using that(2) by simp
    qed
  qed
  then show ?case
  proof cases
    case short
    then have "rev m = m" by (cases m) auto
    moreover have "\<not> i < length (a @ m @ b) div 2"
      using less.prems short by simp
    ultimately show ?thesis by (subst reverse_loop.simps) simp
  next
    case long
    let ?v = "a @ m @ b"
    have len: "length ?v = 2 * i + length m' + 2"
      using less.prems long by simp
    have lt: "i < length ?v div 2"
      using len by simp
    have j: "length ?v - 1 - i = i + length m' + 1"
      using len by simp
    have vi: "?v ! i = x"
      using less.prems long by (simp add: nth_append)
    have vj: "?v ! (i + length m' + 1) = y"
      using less.prems long by (simp add: nth_append)
    have upd: "?v[i := y, i + length m' + 1 := x] = (a @ [y]) @ m' @ ([x] @ b)"
      using less.prems long by (simp add: list_update_append)
    have "reverse_loop i ?v = reverse_loop (i + 1) ((a @ [y]) @ m' @ ([x] @ b))"
      by (subst reverse_loop.simps) (simp only: lt j vi vj upd if_True)
    also have "\<dots> = (a @ [y]) @ rev m' @ ([x] @ b)"
      by (rule less.hyps) (use long less.prems in simp_all)
    finally show ?thesis using long by simp
  qed
qed

lemma reverse_loop_rev: "reverse_loop 0 v = rev v"
  using reverse_loop_middle [of "[]" 0 "[]" v] by simp

subsection \<open>Filling the resolution list\<close>

lemma length_GetFullscreenResolutions:
  "length (GetFullscreenResolutions sdl monitor rate) < 2 ^ 31"
proof (cases "sint monitor < 0")
  case True
  then show ?thesis by (simp add: GetFullscreenResolutions_def)
next
  case False
  let ?n = "nat (sint (SDL_GetNumDisplayModes sdl monitor))"
  have "mset (GetFullscreenResolutions sdl monitor rate) =
      mset (map mode_resolution (filter (passes_rate rate) (reported_modes sdl monitor)))"
    using False by (simp add: GetFullscreenResolutions_def Let_def mset_Sort modes_loop_reported)
  then have "length (GetFullscreenResolutions sdl monitor rate) =
      length (map mode_resolution (filter (passes_rate rate) (reported_modes sdl monitor)))"
    by (metis size_mset)
  then have "length (GetFullscreenResolutions sdl monitor rate) \<le> length (reported_modes sdl monitor)"
    by simp
  also have "\<dots> \<le> ?n"
    using length_filter_le [of "\<lambda>i. SDL_GetDisplayMode sdl monitor (word_of_nat i) \<noteq> None" "[0 ..< ?n]"]
    by (simp add: reported_modes_def List.map_filter_def)
  also have "?n < 2 ^ 31"
    using sint_lt [of "SDL_GetNumDisplayModes sdl monitor"] by simp
  finally show ?thesis .
qed

lemma sint_Size_minus_1:
  assumes "v \<noteq> []" and "length v < 2 ^ 31"
  shows "sint (Size_minus_1 v) = int (length v) - 1"
proof -
  obtain k where k: "length v = Suc k" using assms(1) by (cases v) auto
  have "Size_minus_1 v = (word_of_nat k :: cint)"
    by (simp add: Size_minus_1_def k)
  moreover have "sint (word_of_nat k :: cint) = int k"
    using assms(2) k by (simp add: signed_of_nat signed_take_bit_int_eq_self)
  ultimately show ?thesis by (simp add: k)
qed

lemma ascending_rev: "descending rs \<Longrightarrow> ascending (rev rs)"
  by (simp add: descending_def ascending_def sorted_wrt_rev)

lemma descending_GetFullscreenResolutions: "descending (GetFullscreenResolutions sdl monitor rate)"
proof (cases "sint monitor < 0")
  case True
  then show ?thesis by (simp add: GetFullscreenResolutions_def descending_def)
next
  case False
  then show ?thesis by (simp add: GetFullscreenResolutions_def Let_def descending_Sort)
qed

lemma descending_hd: "descending rs \<Longrightarrow> r \<in> set rs \<Longrightarrow> pixel_area r \<le> pixel_area (hd rs)"
  by (cases rs) (auto simp: descending_def)

text \<open>
  C6. \<^verbatim>\<open>FillResolutions(monitor, rate)\<close> reverses the descending list returned by
  \<^verbatim>\<open>GetFullscreenResolutions\<close>: the swapping loop yields exactly the reversed list. The
  string list of the resolution widget is then the \<^verbatim>\<open>"WxH"\<close> encodings in ascending order
  of pixel area, and the selected index is that of the last entry, the largest resolution
  (when there is no resolution, the index is \<open>-1\<close>).
\<close>

theorem FillResolutions_ascending_last:
  "reverse_loop 0 (GetFullscreenResolutions sdl monitor rate) =
     rev (GetFullscreenResolutions sdl monitor rate) \<and>
   option_strings (opt_resolution (FillResolutions sdl monitor rate st)) =
     map (\<lambda>r. ToString r False) (rev (GetFullscreenResolutions sdl monitor rate)) \<and>
   ascending (rev (GetFullscreenResolutions sdl monitor rate)) \<and>
   (if GetFullscreenResolutions sdl monitor rate = []
    then option_index (opt_resolution (FillResolutions sdl monitor rate st)) = - 1
    else sint (option_index (opt_resolution (FillResolutions sdl monitor rate st))) =
           int (length (option_strings (opt_resolution (FillResolutions sdl monitor rate st)))) - 1 \<and>
         GetValue (opt_resolution (FillResolutions sdl monitor rate st)) =
           ToString (hd (GetFullscreenResolutions sdl monitor rate)) False \<and>
         (\<forall>r \<in> set (GetFullscreenResolutions sdl monitor rate).
            pixel_area r \<le> pixel_area (hd (GetFullscreenResolutions sdl monitor rate))))"
proof -
  let ?rs = "GetFullscreenResolutions sdl monitor rate"
  let ?w = "opt_resolution (FillResolutions sdl monitor rate st)"
  have strings: "option_strings ?w = map (\<lambda>r. ToString r False) (rev ?rs)"
    by (simp add: FillResolutions_def FillResolutions_reentrant_def no_callback_def Let_def reverse_loop_rev SetOptionIndex_def SetStrings_def)
  have index: "option_index ?w = Size_minus_1 (map (\<lambda>r. ToString r False) (rev ?rs))"
    by (simp add: FillResolutions_def FillResolutions_reentrant_def no_callback_def Let_def reverse_loop_rev SetOptionIndex_def SetStrings_def)
  have asc: "ascending (rev ?rs)"
    by (simp add: ascending_rev descending_GetFullscreenResolutions)
  have empty: "option_index ?w = - 1" if "?rs = []"
    using that by (simp add: index Size_minus_1_def)
  have last: "sint (option_index ?w) = int (length (option_strings ?w)) - 1 \<and>
      GetValue ?w = ToString (hd ?rs) False" if ne: "?rs \<noteq> []"
  proof -
    have s: "sint (option_index ?w) = int (length ?rs) - 1"
      using sint_Size_minus_1 [of "map (\<lambda>r. ToString r False) (rev ?rs)"] ne
        length_GetFullscreenResolutions [of sdl monitor rate]
      by (simp add: index)
    have "option_strings ?w ! (length ?rs - 1) = ToString (hd ?rs) False"
      using ne by (simp add: strings rev_nth hd_conv_nth)
    moreover have "nat (int (length ?rs) - 1) = length ?rs - 1" by simp
    ultimately have "GetValue ?w = ToString (hd ?rs) False"
      using ne by (simp add: GetValue_def Let_def s) (simp add: strings)
    then show ?thesis by (simp add: s strings)
  qed
  show ?thesis
    using strings asc empty last descending_hd [OF descending_GetFullscreenResolutions]
    by (simp add: reverse_loop_rev)
qed

theorem FillResolutions_ascending_last_witness:
  "option_strings (opt_resolution (FillResolutions example_sdl 0 (- 1) example_dialog)) =
     [''800x600'', ''1024x768'', ''1920x1080''] \<and>
   option_index (opt_resolution (FillResolutions example_sdl 0 (- 1) example_dialog)) = 2 \<and>
   GetValue (opt_resolution (FillResolutions example_sdl 0 (- 1) example_dialog)) = ''1920x1080'' \<and>
   ascending (rev (GetFullscreenResolutions example_sdl 0 (- 1)))"
proof -
  have filled: "FillResolutions example_sdl 0 (- 1) example_dialog =
      example_dialog\<lparr>opt_resolution :=
        \<lparr>option_strings = [''800x600'', ''1024x768'', ''1920x1080''], option_index = 2\<rparr>\<rparr>"
    by code_simp
  have "ascending (rev (GetFullscreenResolutions example_sdl 0 (- 1)))"
    using FillResolutions_ascending_last [of example_sdl 0 "- 1" example_dialog] by blast
  then show ?thesis
    by (simp add: filled GetValue_def)
qed

subsection \<open>Splitting\<close>

lemma split_pieces_not_Nil: "split_pieces sep s \<noteq> []"
  by (induction s) (auto split: list.split)

lemma split_pieces_no_separator: "sep \<notin> set a \<Longrightarrow> split_pieces sep a = [a]"
  by (induction a) auto

lemma split_pieces_append:
  "sep \<notin> set a \<Longrightarrow> split_pieces sep (a @ sep # b) = a # split_pieces sep b"
  by (induction a) auto

lemma Split_no_separator:
  "sep \<notin> set s \<Longrightarrow> Split s sep = (if s = [] then [] else [s])"
  by (simp add: Split_def split_pieces_no_separator)

lemma Split_two:
  "sep \<notin> set a \<Longrightarrow> sep \<notin> set b \<Longrightarrow> a \<noteq> [] \<Longrightarrow> b \<noteq> [] \<Longrightarrow>
   Split (a @ sep # b) sep = [a, b]"
  by (simp add: Split_def split_pieces_append split_pieces_no_separator)

subsection \<open>Decimal digits\<close>

lemma digit_cases:
  assumes "0 \<le> d" and "d < 10"
  shows "d = 0 \<or> d = 1 \<or> d = 2 \<or> d = 3 \<or> d = 4 \<or> d = 5 \<or> d = 6 \<or> d = 7 \<or> d = 8 \<or> d = (9::int)"
  using assms by arith

lemma plain_digit_digit_char: "0 \<le> d \<Longrightarrow> d < 10 \<Longrightarrow> plain_digit (digit_char d)"
  using digit_cases [of d] by (auto simp: plain_digit_def digit_char_def)

lemma digit_value_digit_char: "0 \<le> d \<Longrightarrow> d < 10 \<Longrightarrow> digit_value 10 (digit_char d) = Some d"
  using digit_cases [of d] by (auto simp: digit_value_def digit_char_def)

lemma plain_digit_facts:
  "plain_digit c \<Longrightarrow>
     \<not> isspace c \<and> c \<noteq> CHR ''-'' \<and> c \<noteq> CHR ''+'' \<and> c \<noteq> CHR ''x'' \<and> c \<noteq> CHR ''@''"
  by (auto simp: plain_digit_def isspace_def)

lemma decimal_digits: "0 \<le> n \<Longrightarrow> decimal n \<noteq> [] \<and> (\<forall>c \<in> set (decimal n). plain_digit c)"
proof (induction n rule: decimal.induct)
  case (1 n)
  show ?case
  proof (cases "n < 10")
    case True
    with 1 show ?thesis by (subst decimal.simps, subst decimal.simps) (simp add: plain_digit_digit_char)
  next
    case False
    then have "0 \<le> n div 10" and "0 \<le> n mod 10" and "n mod 10 < 10" by simp_all
    with 1 False show ?thesis
      by (subst decimal.simps, subst (2) decimal.simps) (simp add: plain_digit_digit_char)
  qed
qed

lemma strtol_digits_decimal:
  "0 \<le> n \<Longrightarrow> strtol_digits 10 (decimal n @ rest) 0 = strtol_digits 10 rest n"
proof (induction n arbitrary: rest rule: decimal.induct)
  case (1 n)
  show ?case
  proof (cases "n < 10")
    case True
    with 1 show ?thesis by (subst decimal.simps) (simp add: digit_value_digit_char)
  next
    case False
    then have nn: "0 \<le> n div 10" and d: "0 \<le> n mod 10" "n mod 10 < 10" by simp_all
    have "strtol_digits 10 (decimal n @ rest) 0 =
        strtol_digits 10 (decimal (n div 10) @ (digit_char (n mod 10) # rest)) 0"
      using False by (subst decimal.simps) simp
    also have "\<dots> = strtol_digits 10 (digit_char (n mod 10) # rest) (n div 10)"
      using "1.IH" [OF False nn] .
    also have "\<dots> = strtol_digits 10 rest (n div 10 * 10 + n mod 10)"
      using d by (simp add: digit_value_digit_char)
    finally show ?thesis by simp
  qed
qed

subsection \<open>Parsing what was formatted\<close>

lemma strtol_digits_stop:
  "rest = [] \<or> digit_value b (hd rest) = None \<Longrightarrow> strtol_digits b rest acc = acc"
  by (cases rest) auto

lemma format_d_chars:
  "format_d v \<noteq> [] \<and> (\<forall>c \<in> set (format_d v). plain_digit c \<or> c = CHR ''-'')"
  using decimal_digits [of "sint v"] decimal_digits [of "- sint v"]
  by (auto simp: format_d_def)

lemma format_d_no_x: "CHR ''x'' \<notin> set (format_d v)"
  using format_d_chars [of v] plain_digit_facts by auto

lemma format_d_no_at: "CHR ''@'' \<notin> set (format_d v)"
  using format_d_chars [of v] plain_digit_facts by auto

lemma strtol_format_d:
  assumes "rest = [] \<or> digit_value 10 (hd rest) = None"
  shows "strtol (format_d v @ rest) 10 = sint v"
proof -
  have range: "- (2 ^ 63) \<le> sint v" "sint v \<le> 2 ^ 63 - 1"
    using sint_ge [of v] sint_lt [of v] by simp_all
  show ?thesis
  proof (cases "sint v < 0")
    case True
    then have m: "0 \<le> - sint v" by simp
    have "strtol_digits 10 (decimal (- sint v) @ rest) 0 = - sint v"
      using strtol_digits_decimal [OF m, of rest] strtol_digits_stop [OF assms] by simp
    then show ?thesis
      using True range by (simp add: strtol_def format_d_def isspace_def Let_def)
  next
    case False
    then have m: "0 \<le> sint v" by simp
    obtain c cs where dec: "decimal (sint v) = c # cs" and c: "plain_digit c"
      using decimal_digits [OF m] by (cases "decimal (sint v)") auto
    have "strtol_digits 10 (decimal (sint v) @ rest) 0 = sint v"
      using strtol_digits_decimal [OF m, of rest] strtol_digits_stop [OF assms] by simp
    then have "strtol_digits 10 (c # cs @ rest) 0 = sint v"
      by (simp add: dec)
    then show ?thesis
      using False range plain_digit_facts [OF c]
      by (simp add: strtol_def format_d_def Let_def dec del: strtol_digits.simps)
  qed
qed

lemma ToInt_format_d:
  assumes "rest = [] \<or> digit_value 10 (hd rest) = None" and "base = 0 \<or> base = 10"
  shows "ToInt (format_d v @ rest) base = v"
  using assms(2) strtol_format_d [OF assms(1), of v]
  by (auto simp: ToInt_def)

lemma ToInt_malformed:
  assumes "malformed_number t" and "base = 0 \<or> base = 10"
  shows "ToInt t base = 0"
proof -
  define s1 where "s1 = dropWhile isspace t"
  define s2 where "s2 = (case s1 of [] \<Rightarrow> [] | c # cs \<Rightarrow> if c = CHR ''-'' \<or> c = CHR ''+'' then cs else s1)"
  have "case s2 of [] \<Rightarrow> True | c # _ \<Rightarrow> digit_value 10 c = None"
    using assms(1) unfolding malformed_number_def Let_def s2_def s1_def .
  then have "s2 = [] \<or> digit_value 10 (hd s2) = None"
    by (cases s2) simp_all
  then have "strtol_digits 10 s2 0 = 0"
    by (rule strtol_digits_stop)
  then have "strtol t 10 = 0"
    unfolding strtol_def Let_def s2_def s1_def by simp
  then show ?thesis
    using assms(2) by (auto simp: ToInt_def)
qed

text \<open>
  C4. For every resolution \<open>r\<close>, \<^verbatim>\<open>FromString(r.ToString(true))\<close> is \<open>r\<close>: width, height and
  refresh rate are all recovered from \<^verbatim>\<open>"WxH@RHz"\<close>; and \<^verbatim>\<open>FromString(r.ToString(false))\<close>
  is the resolution \<open>(r.width, r.height, 0)\<close>.
\<close>

theorem FromString_ToString:
  "FromString (ToString r True) = r \<and>
   FromString (ToString r False) = Resolution3 (width r) (height r) 0"
proof -
  let ?W = "format_d (width r)" and ?H = "format_d (height r)" and ?R = "format_d (refreshrate r)"
  have ne: "?W \<noteq> []" "?H \<noteq> []" "?R \<noteq> []"
    using format_d_chars by simp_all
  have Hz: "digit_value 10 CHR ''H'' = None"
    by (simp add: digit_value_def)
  have with_rate: "ToString r True = ?W @ CHR ''x'' # (?H @ CHR ''@'' # (?R @ ''Hz''))"
    by (simp add: ToString_def)
  have tokens: "Split (ToString r True) CHR ''x'' = [?W, ?H @ CHR ''@'' # (?R @ ''Hz'')]"
    unfolding with_rate by (rule Split_two) (simp_all add: format_d_no_x ne)
  have rate_tokens: "Split (?H @ CHR ''@'' # (?R @ ''Hz'')) CHR ''@'' = [?H, ?R @ ''Hz'']"
    by (rule Split_two) (simp_all add: format_d_no_at ne)
  have w: "ToInt ?W 0 = width r"
    using ToInt_format_d [of "[]" 0 "width r"] by simp
  have h: "ToInt ?H 10 = height r"
    using ToInt_format_d [of "[]" 10 "height r"] by simp
  have rr: "ToInt (?R @ ''Hz'') 10 = refreshrate r"
    using ToInt_format_d [of "''Hz''" 10 "refreshrate r"] Hz by simp
  have first: "FromString (ToString r True) = r"
    by (simp add: FromString_def tokens rate_tokens w h rr Resolution3_def)
  have without: "ToString r False = ?W @ CHR ''x'' # ?H"
    by (simp add: ToString_def)
  have tokens': "Split (ToString r False) CHR ''x'' = [?W, ?H]"
    unfolding without by (rule Split_two) (simp_all add: format_d_no_x ne)
  have rate_tokens': "Split ?H CHR ''@'' = [?H]"
    by (simp add: Split_no_separator format_d_no_at ne)
  have h0: "ToInt ?H 0 = height r"
    using ToInt_format_d [of "[]" 0 "height r"] by simp
  have second: "FromString (ToString r False) = Resolution3 (width r) (height r) 0"
    by (simp add: FromString_def tokens' rate_tokens' w h0 Resolution2_def)
  show ?thesis using first second by simp
qed

theorem FromString_ToString_witness:
  "ToString (Resolution3 1920 1080 60) True = ''1920x1080@60Hz'' \<and>
   FromString ''1920x1080@60Hz'' = Resolution3 1920 1080 60 \<and>
   ToString (Resolution3 (- 5) 0 (- 1)) False = ''-5x0'' \<and>
   FromString ''-5x0'' = Resolution3 (- 5) 0 0"
proof -
  have "ToString (Resolution3 1920 1080 60) True = ''1920x1080@60Hz''"
    and "ToString (Resolution3 (- 5) 0 (- 1)) False = ''-5x0''"
    by code_simp+
  then show ?thesis
    using FromString_ToString [of "Resolution3 1920 1080 60"]
      FromString_ToString [of "Resolution3 (- 5) 0 (- 1)"]
    by (simp add: Resolution3_def)
qed

text \<open>
  C3, as amended. For every input string that does not contain the character \<^verbatim>\<open>x\<close> (it
  splits into fewer than two tokens), \<^verbatim>\<open>Resolution::FromString\<close> returns the resolution
  \<open>(0, 0, 0)\<close>; and for every input, each numeric field in which no number starts (after
  leading white space and an optional sign there is no decimal digit) parses to 0 in the
  corresponding field of the result.
\<close>

theorem FromString_defaults_to_zero:
  "(CHR ''x'' \<notin> set s \<longrightarrow>
      length (Split s CHR ''x'') < 2 \<and> FromString s = \<lparr>width = 0, height = 0, refreshrate = 0\<rparr>) \<and>
   (length (Split s CHR ''x'') < 2 \<longrightarrow> FromString s = \<lparr>width = 0, height = 0, refreshrate = 0\<rparr>) \<and>
   (2 < length (Split s CHR ''x'') \<longrightarrow>
      (malformed_number (Split s CHR ''x'' ! 0) \<longrightarrow> width (FromString s) = 0) \<and>
      (malformed_number (Split s CHR ''x'' ! 1) \<longrightarrow> height (FromString s) = 0) \<and>
      (malformed_number (Split s CHR ''x'' ! 2) \<longrightarrow> refreshrate (FromString s) = 0)) \<and>
   (length (Split s CHR ''x'') = 2 \<longrightarrow>
      (malformed_number (Split s CHR ''x'' ! 0) \<longrightarrow> width (FromString s) = 0) \<and>
      (if 1 < length (Split (Split s CHR ''x'' ! 1) CHR ''@'')
       then (malformed_number (Split (Split s CHR ''x'' ! 1) CHR ''@'' ! 0) \<longrightarrow>
               height (FromString s) = 0) \<and>
            (malformed_number (Split (Split s CHR ''x'' ! 1) CHR ''@'' ! 1) \<longrightarrow>
               refreshrate (FromString s) = 0)
       else (malformed_number (Split s CHR ''x'' ! 1) \<longrightarrow> height (FromString s) = 0) \<and>
            refreshrate (FromString s) = 0))"
proof -
  have none: "length (Split s CHR ''x'') < 2 \<and> FromString s = \<lparr>width = 0, height = 0, refreshrate = 0\<rparr>"
    if "CHR ''x'' \<notin> set s"
    using that by (simp add: FromString_def Split_no_separator Resolution3_def)
  have few: "FromString s = \<lparr>width = 0, height = 0, refreshrate = 0\<rparr>" if "length (Split s CHR ''x'') < 2"
    using that by (simp add: FromString_def Let_def Resolution3_def)
  have zero: "ToInt t 0 = 0 \<and> ToInt t 10 = 0" if "malformed_number t" for t
    using that by (simp add: ToInt_malformed)
  have many: "(malformed_number (Split s CHR ''x'' ! 0) \<longrightarrow> width (FromString s) = 0) \<and>
      (malformed_number (Split s CHR ''x'' ! 1) \<longrightarrow> height (FromString s) = 0) \<and>
      (malformed_number (Split s CHR ''x'' ! 2) \<longrightarrow> refreshrate (FromString s) = 0)"
    if "2 < length (Split s CHR ''x'')"
    using that zero by (simp add: FromString_def Let_def Resolution3_def)
  have two: "(malformed_number (Split s CHR ''x'' ! 0) \<longrightarrow> width (FromString s) = 0) \<and>
      (if 1 < length (Split (Split s CHR ''x'' ! 1) CHR ''@'')
       then (malformed_number (Split (Split s CHR ''x'' ! 1) CHR ''@'' ! 0) \<longrightarrow>
               height (FromString s) = 0) \<and>
            (malformed_number (Split (Split s CHR ''x'' ! 1) CHR ''@'' ! 1) \<longrightarrow>
               refreshrate (FromString s) = 0)
       else (malformed_number (Split s CHR ''x'' ! 1) \<longrightarrow> height (FromString s) = 0) \<and>
            refreshrate (FromString s) = 0)"
    if "length (Split s CHR ''x'') = 2"
    using that zero by (simp add: FromString_def Let_def Resolution3_def Resolution2_def)
  show ?thesis
    using none few many two by blast
qed

theorem FromString_defaults_to_zero_witness:
  "CHR ''x'' \<notin> set ''fullscreen'' \<and>
   FromString ''fullscreen'' = \<lparr>width = 0, height = 0, refreshrate = 0\<rparr> \<and>
   Split ''widexhigh@fastHz'' CHR ''x'' = [''wide'', ''high@fastHz''] \<and>
   malformed_number ''wide'' \<and> malformed_number ''high'' \<and> malformed_number ''fastHz'' \<and>
   FromString ''widexhigh@fastHz'' = \<lparr>width = 0, height = 0, refreshrate = 0\<rparr> \<and>
   FromString ''1024x?'' = \<lparr>width = 1024, height = 0, refreshrate = 0\<rparr>"
proof -
  have tokens: "Split ''widexhigh@fastHz'' CHR ''x'' = [''wide'', ''high@fastHz'']"
    by code_simp
  have rate_tokens: "Split ''high@fastHz'' CHR ''@'' = [''high'', ''fastHz'']"
    by code_simp
  have bad: "malformed_number ''wide''" "malformed_number ''high''" "malformed_number ''fastHz''"
    by code_simp+
  have partly: "FromString ''1024x?'' = \<lparr>width = 1024, height = 0, refreshrate = 0\<rparr>"
    by code_simp
  have "width (FromString ''widexhigh@fastHz'') = 0 \<and>
      height (FromString ''widexhigh@fastHz'') = 0 \<and>
      refreshrate (FromString ''widexhigh@fastHz'') = 0"
    using FromString_defaults_to_zero [of "''widexhigh@fastHz''"] bad
    by (simp add: tokens rate_tokens)
  then have "FromString ''widexhigh@fastHz'' = \<lparr>width = 0, height = 0, refreshrate = 0\<rparr>"
    by (cases "FromString ''widexhigh@fastHz''") (simp add: Resolution3_def)
  then show ?thesis
    using FromString_defaults_to_zero [of "''fullscreen''"] tokens bad partly by simp
qed

text \<open>
  The claim as first stated had every malformed numeric field parse to 0. A field that
  starts with a number and goes on with other characters is malformed and does not: the
  leading number is read and the rest ignored (the rate field \<^verbatim>\<open>60Hz\<close> is read this way).
\<close>

theorem FromString_malformed_field_counterexample:
  "Split ''12abx34.9'' CHR ''x'' = [''12ab'', ''34.9''] \<and>
   \<not> well_formed_number ''12ab'' \<and>
   \<not> well_formed_number ''34.9'' \<and>
   FromString ''12abx34.9'' = \<lparr>width = 12, height = 34, refreshrate = 0\<rparr>"
  by code_simp

subsection \<open>What the fill and apply routines leave alone\<close>

lemma FillRates_frame:
  "needs_apply (FillRates sdl monitor st) = needs_apply st"
  "refreshing (FillRates sdl monitor st) = refreshing st"
  "btn_apply (FillRates sdl monitor st) = btn_apply st"
  "opt_fullscreen (FillRates sdl monitor st) = opt_fullscreen st"
  "calls (FillRates sdl monitor st) = calls st"
  by (simp_all add: FillRates_def FillRates_reentrant_def no_callback_def Let_def)

lemma FillResolutions_frame:
  "needs_apply (FillResolutions sdl monitor rate st) = needs_apply st"
  "refreshing (FillResolutions sdl monitor rate st) = refreshing st"
  "btn_apply (FillResolutions sdl monitor rate st) = btn_apply st"
  "opt_fullscreen (FillResolutions sdl monitor rate st) = opt_fullscreen st"
  "calls (FillResolutions sdl monitor rate st) = calls st"
  by (simp_all add: FillResolutions_def FillResolutions_reentrant_def no_callback_def Let_def)

lemma call_frame:
  "needs_apply (call c st) = needs_apply st"
  "refreshing (call c st) = refreshing st"
  "btn_apply (call c st) = btn_apply st"
  by (simp_all add: call_def)

lemma ApplyGraphicsOptions_frame:
  "needs_apply (ApplyGraphicsOptions st) = needs_apply st"
  "btn_apply (ApplyGraphicsOptions st) = btn_apply st"
  by (simp_all add: ApplyGraphicsOptions_def Let_def call_frame)

lemma ApplyVideoOptions_frame:
  "btn_apply (ApplyVideoOptions st) = btn_apply st"
  "needs_apply (ApplyVideoOptions st) = needs_apply st"
  by (simp_all add: ApplyVideoOptions_def Let_def call_frame)

text \<open>
  C9. \<^verbatim>\<open>ApplyVideoOptions\<close> calls \<^verbatim>\<open>Graphics::SetMode\<close> with the fullscreen flag true iff the
  display-mode index is 2 and the borderless flag true iff it is 1. It passes resolution
  \<open>(0, 0)\<close> when the index is 1, the saved windowed resolution when it is 0 (the saved window
  position is restored after the call), and the resolution and the refresh rate parsed
  from the resolution and rate widgets when it is 2.
\<close>

theorem ApplyVideoOptions_SetMode:
  "ApplyVideoOptions st =
     st\<lparr>calls := calls st @
        [Graphics_SetMode
          \<lparr>arg_width =
             (if GetOptionIndex (opt_fullscreen st) = 1 then 0
              else if GetOptionIndex (opt_fullscreen st) = 0 then vec_x (windowed_resolution st)
              else if GetOptionIndex (opt_fullscreen st) = 2
              then width (FromString (GetValue (opt_resolution st)))
              else 0),
           arg_height =
             (if GetOptionIndex (opt_fullscreen st) = 1 then 0
              else if GetOptionIndex (opt_fullscreen st) = 0 then vec_y (windowed_resolution st)
              else if GetOptionIndex (opt_fullscreen st) = 2
              then height (FromString (GetValue (opt_resolution st)))
              else 0),
           arg_fullscreen = (GetOptionIndex (opt_fullscreen st) = 2),
           arg_borderless = (GetOptionIndex (opt_fullscreen st) = 1),
           arg_resizable = True, arg_highDPI = False,
           arg_vsync = GetOptionValue (opt_vsync st), arg_tripleBuffer = False,
           arg_multiSample = 0, arg_monitor = GetOptionIndex (opt_monitor st),
           arg_refreshRate =
             (if GetOptionIndex (opt_fullscreen st) = 2 then ToInt (GetValue (opt_rate st)) 10
              else 0)\<rparr>] @
        (if GetOptionIndex (opt_fullscreen st) = 0
         then [Graphics_SetWindowPosition (windowed_position st)] else []) @
        [SDL_RaiseWindow]\<rparr>"
proof -
  consider (windowed) "GetOptionIndex (opt_fullscreen st) = 0"
    | (borderless) "GetOptionIndex (opt_fullscreen st) = 1"
    | (fullscreen) "GetOptionIndex (opt_fullscreen st) = 2"
    | (other) "GetOptionIndex (opt_fullscreen st) \<noteq> 0" "GetOptionIndex (opt_fullscreen st) \<noteq> 1"
        "GetOptionIndex (opt_fullscreen st) \<noteq> 2"
    by blast
  then show ?thesis
  proof cases
    case windowed
    then show ?thesis
      by (simp add: ApplyVideoOptions_def Let_def call_def Resolution0_def Set_res_def)
  next
    case borderless
    then show ?thesis
      by (simp add: ApplyVideoOptions_def Let_def call_def Resolution0_def Resolution2_def
          Resolution3_def)
  next
    case fullscreen
    then show ?thesis
      by (simp add: ApplyVideoOptions_def Let_def call_def Resolution0_def)
  next
    case other
    then show ?thesis
      by (simp add: ApplyVideoOptions_def Let_def call_def Resolution0_def)
  qed
qed

theorem ApplyVideoOptions_SetMode_witness:
  "calls (ApplyVideoOptions (example_dialog\<lparr>
       opt_fullscreen := SetOptionIndex 2 (opt_fullscreen example_dialog),
       opt_resolution := \<lparr>option_strings = [''800x600'', ''1920x1080''], option_index = 1\<rparr>,
       opt_rate := \<lparr>option_strings = [''75'', ''60''], option_index = 1\<rparr>\<rparr>)) =
     [Graphics_SetMode
        \<lparr>arg_width = 1920, arg_height = 1080, arg_fullscreen = True, arg_borderless = False,
         arg_resizable = True, arg_highDPI = False, arg_vsync = False, arg_tripleBuffer = False,
         arg_multiSample = 0, arg_monitor = 0, arg_refreshRate = 60\<rparr>,
      SDL_RaiseWindow] \<and>
   calls (ApplyVideoOptions example_dialog) =
     [Graphics_SetMode
        \<lparr>arg_width = 1024, arg_height = 768, arg_fullscreen = False, arg_borderless = False,
         arg_resizable = True, arg_highDPI = False, arg_vsync = False, arg_tripleBuffer = False,
         arg_multiSample = 0, arg_monitor = 0, arg_refreshRate = 0\<rparr>,
      Graphics_SetWindowPosition \<lparr>vec_x = 100, vec_y = 50\<rparr>,
      SDL_RaiseWindow]"
proof -
  let ?st = "example_dialog\<lparr>
       opt_fullscreen := SetOptionIndex 2 (opt_fullscreen example_dialog),
       opt_resolution := \<lparr>option_strings = [''800x600'', ''1920x1080''], option_index = 1\<rparr>,
       opt_rate := \<lparr>option_strings = [''75'', ''60''], option_index = 1\<rparr>\<rparr>"
  have res: "FromString ''1920x1080'' = \<lparr>width = 1920, height = 1080, refreshrate = 0\<rparr>"
    by code_simp
  have rate: "ToInt ''60'' 10 = 60"
    by code_simp
  have "calls (ApplyVideoOptions ?st) =
     [Graphics_SetMode
        \<lparr>arg_width = 1920, arg_height = 1080, arg_fullscreen = True, arg_borderless = False,
         arg_resizable = True, arg_highDPI = False, arg_vsync = False, arg_tripleBuffer = False,
         arg_multiSample = 0, arg_monitor = 0, arg_refreshRate = 60\<rparr>,
      SDL_RaiseWindow]"
    by (subst ApplyVideoOptions_SetMode)
      (simp add: example_dialog_def SetOptionIndex_def GetOptionIndex_def GetValue_def
        GetOptionValue_def res rate)
  moreover have "calls (ApplyVideoOptions example_dialog) =
     [Graphics_SetMode
        \<lparr>arg_width = 1024, arg_height = 768, arg_fullscreen = False, arg_borderless = False,
         arg_resizable = True, arg_highDPI = False, arg_vsync = False, arg_tripleBuffer = False,
         arg_multiSample = 0, arg_monitor = 0, arg_refreshRate = 0\<rparr>,
      Graphics_SetWindowPosition \<lparr>vec_x = 100, vec_y = 50\<rparr>,
      SDL_RaiseWindow]"
    by (subst ApplyVideoOptions_SetMode)
      (simp add: example_dialog_def SetOptionIndex_def GetOptionIndex_def GetValue_def
        GetOptionValue_def)
  ultimately show ?thesis by simp
qed

subsection \<open>Refreshing the video options\<close>

lemma RefreshVideoOptions_fullscreen_index:
  "opt_fullscreen (RefreshVideoOptions sdl graphics st) =
     SetOptionIndex 0 (opt_fullscreen st)"
  by (simp add: RefreshVideoOptions_def RefreshVideoOptions_reentrant_def no_callback_def Let_def
      FillRates_def [symmetric] FillResolutions_def [symmetric] FillRates_frame FillResolutions_frame)

lemma RefreshVideoOptions_needs_apply:
  "needs_apply (RefreshVideoOptions sdl graphics st) = needs_apply st"
  by (simp add: RefreshVideoOptions_def RefreshVideoOptions_reentrant_def no_callback_def Let_def
      FillRates_def [symmetric] FillResolutions_def [symmetric] FillRates_frame FillResolutions_frame)

lemma RefreshVideoOptions_button:
  "enabled (btn_apply (RefreshVideoOptions sdl graphics st)) = needs_apply st"
  by (simp add: RefreshVideoOptions_def RefreshVideoOptions_reentrant_def no_callback_def Let_def
      FillRates_def [symmetric] FillResolutions_def [symmetric] FillRates_frame FillResolutions_frame
      SetEnabled_def SetFocusMode_def)

subsection \<open>Callbacks raised while refreshing\<close>

lemma FillRates_reentrant_guarded:
  assumes guard: "\<And>option s. refreshing s \<Longrightarrow> changed option s = s"
    and "refreshing st"
  shows "FillRates_reentrant changed sdl monitor st = FillRates sdl monitor st"
  using assms(2)
  by (simp add: FillRates_def FillRates_reentrant_def no_callback_def Let_def guard)

lemma FillResolutions_reentrant_guarded:
  assumes guard: "\<And>option s. refreshing s \<Longrightarrow> changed option s = s"
    and "refreshing st"
  shows "FillResolutions_reentrant changed sdl monitor rate st = FillResolutions sdl monitor rate st"
  using assms(2)
  by (simp add: FillResolutions_def FillResolutions_reentrant_def no_callback_def Let_def guard)

lemma Let_state_cong:
  assumes "a = b" and "refreshing b" and "\<And>x. refreshing x \<Longrightarrow> f x = g x"
  shows "Let a f = Let b g"
  using assms by simp

lemma Let_value_cong:
  assumes "\<And>x. f x = g x"
  shows "Let a f = Let a g"
  using assms by simp

lemma RefreshGraphicsOptions_reentrant_guarded:
  assumes guard: "\<And>option s. refreshing s \<Longrightarrow> changed option s = s"
  shows "RefreshGraphicsOptions_reentrant changed renderer st = RefreshGraphicsOptions renderer st"
  unfolding RefreshGraphicsOptions_def RefreshGraphicsOptions_reentrant_def
  apply (rule Let_state_cong, rule refl, simp)
  apply (rule Let_state_cong, simp add: guard no_callback_def, simp add: no_callback_def)
  apply (rule Let_state_cong, simp add: guard no_callback_def, simp add: no_callback_def)
  apply (rule Let_state_cong, simp add: guard no_callback_def, simp add: no_callback_def)
  apply (rule Let_state_cong, simp add: guard no_callback_def, simp add: no_callback_def)
  apply (rule Let_state_cong, simp add: guard no_callback_def, simp add: no_callback_def)
  apply (rule Let_state_cong, simp add: guard no_callback_def, simp add: no_callback_def)
  apply (rule Let_state_cong, simp add: guard no_callback_def, simp add: no_callback_def)
  apply (rule Let_state_cong, simp add: guard no_callback_def, simp add: no_callback_def)
  apply (rule refl)
  done

lemma RefreshVideoOptions_reentrant_guarded:
  assumes guard: "\<And>option s. refreshing s \<Longrightarrow> changed option s = s"
  shows "RefreshVideoOptions_reentrant changed sdl graphics st = RefreshVideoOptions sdl graphics st"
  unfolding RefreshVideoOptions_def RefreshVideoOptions_reentrant_def
  apply (rule Let_state_cong, rule refl, simp)
  apply (rule Let_state_cong, rule refl, simp)
  apply (rule Let_state_cong, rule refl, simp)
  apply (rule Let_value_cong)
  apply (rule Let_value_cong)
  apply (rule Let_state_cong, simp add: guard no_callback_def, simp add: no_callback_def)
  apply (rule Let_state_cong, simp add: guard no_callback_def, simp add: no_callback_def)
  apply (rule Let_state_cong,
      simp add: FillRates_reentrant_guarded [OF guard] FillRates_def,
      simp add: FillRates_def [symmetric] FillRates_frame)
  apply (rule Let_value_cong)
  apply (rule Let_state_cong,
      simp add: FillResolutions_reentrant_guarded [OF guard] FillResolutions_def,
      simp add: FillResolutions_def [symmetric] FillResolutions_frame)
  apply (rule Let_value_cong)
  apply (rule Let_state_cong, simp add: guard no_callback_def, simp add: no_callback_def)
  apply (rule Let_value_cong)
  apply (rule Let_value_cong)
  apply (rule Let_state_cong, simp add: guard no_callback_def, simp add: no_callback_def)
  apply (rule Let_state_cong, simp add: guard no_callback_def, simp add: no_callback_def)
  apply (rule Let_state_cong, simp add: guard no_callback_def, simp add: no_callback_def)
  apply (rule refl)
  done

text \<open>
  C7. While the flag \<^verbatim>\<open>refreshing_\<close> is true, \<^verbatim>\<open>HandleOptionChanged\<close> and
  \<^verbatim>\<open>ApplyGraphicsOptions\<close> return at once, for one event and for any sequence of events.
  \<^verbatim>\<open>RefreshVideoOptions\<close> and \<^verbatim>\<open>RefreshGraphicsOptions\<close> raise the flag before their first
  setter and lower it after their last, so an option-changed callback that re-enters
  \<^verbatim>\<open>HandleOptionChanged\<close> from any setter during a refresh changes no widget, no renderer
  setting (no call is issued) and no flag, \<^verbatim>\<open>needs_apply_\<close> included: the refresh with the
  callbacks delivered ends in the same state as the refresh without them.
\<close>

theorem refreshing_guards_handlers:
  "(refreshing st \<longrightarrow>
      HandleOptionChanged sdl option st = st \<and> ApplyGraphicsOptions st = st \<and>
      fold (HandleOptionChanged sdl) options st = st) \<and>
   RefreshVideoOptions_reentrant (HandleOptionChanged sdl) sdl graphics st0 =
     RefreshVideoOptions sdl graphics st0 \<and>
   RefreshGraphicsOptions_reentrant (HandleOptionChanged sdl) renderer st0 =
     RefreshGraphicsOptions renderer st0"
proof -
  have one: "HandleOptionChanged sdl opt s = s" if "refreshing s" for opt s
    using that by (simp add: HandleOptionChanged_def)
  have many: "fold (HandleOptionChanged sdl) options st = st" if "refreshing st"
    using that by (induction options) (simp_all add: one)
  have apply_graphics: "ApplyGraphicsOptions st = st" if "refreshing st"
    using that by (simp add: ApplyGraphicsOptions_def)
  have video: "RefreshVideoOptions_reentrant (HandleOptionChanged sdl) sdl graphics st0 =
      RefreshVideoOptions sdl graphics st0"
    by (rule RefreshVideoOptions_reentrant_guarded) (rule one)
  have graphics: "RefreshGraphicsOptions_reentrant (HandleOptionChanged sdl) renderer st0 =
      RefreshGraphicsOptions renderer st0"
    by (rule RefreshGraphicsOptions_reentrant_guarded) (rule one)
  show ?thesis
    using one many apply_graphics video graphics by simp
qed

theorem refreshing_guards_handlers_witness:
  "refreshing (example_dialog\<lparr>refreshing := True\<rparr>) \<and>
   HandleOptionChanged example_sdl OptMonitor (example_dialog\<lparr>refreshing := True\<rparr>) =
     example_dialog\<lparr>refreshing := True\<rparr> \<and>
   ApplyGraphicsOptions (example_dialog\<lparr>refreshing := True\<rparr>) =
     example_dialog\<lparr>refreshing := True\<rparr> \<and>
   needs_apply (HandleOptionChanged example_sdl OptMonitor example_dialog) \<and>
   \<not> needs_apply example_dialog \<and>
   \<not> needs_apply
     (RefreshVideoOptions_reentrant (HandleOptionChanged example_sdl) example_sdl
        example_fullscreen_graphics example_dialog) \<and>
   calls (HandleOptionChanged example_sdl OptHdr example_dialog) \<noteq> [] \<and>
   calls (RefreshGraphicsOptions_reentrant (HandleOptionChanged example_sdl)
     example_renderer example_dialog) = []"
proof -
  have pending: "needs_apply (HandleOptionChanged example_sdl OptMonitor example_dialog)"
    by (simp add: HandleOptionChanged_def Let_def HasTag_def GetName_def example_dialog_def
        OptMonitor_def FillRates_frame FillResolutions_frame)
  have idle: "\<not> needs_apply example_dialog" "calls example_dialog = []"
    by (simp_all add: example_dialog_def)
  have applied: "calls (HandleOptionChanged example_sdl OptHdr example_dialog) \<noteq> []"
    by (simp add: HandleOptionChanged_def Let_def HasTag_def GetName_def example_dialog_def
        OptHdr_def ApplyGraphicsOptions_def call_def)
  have quiet: "calls (RefreshGraphicsOptions example_renderer example_dialog) = []"
    using idle(2)
    by (simp add: RefreshGraphicsOptions_def RefreshGraphicsOptions_reentrant_def no_callback_def
        Let_def)
  show ?thesis
    using refreshing_guards_handlers [of "example_dialog\<lparr>refreshing := True\<rparr>" example_sdl
        OptMonitor "[]" example_fullscreen_graphics example_dialog example_renderer]
      pending idle applied quiet
    by (simp add: RefreshVideoOptions_needs_apply)
qed

text \<open>
  C2. The claim: \<^verbatim>\<open>RefreshVideoOptions\<close> sets the index of the display-mode widget to the
  engine's window mode, 0 for a window, 1 for a borderless window, 2 for fullscreen.
  The program computes \<^verbatim>\<open>mode\<close> and then passes the constant \<^verbatim>\<open>RWM_WINDOWED\<close>: whatever
  the engine reports, the index becomes 0.
\<close>

theorem RefreshVideoOptions_index_always_windowed:
  "GetOptionIndex (opt_fullscreen (RefreshVideoOptions sdl graphics st)) = 0 \<and>
   GetFullscreen example_fullscreen_graphics \<and>
   GetOptionIndex (opt_fullscreen
     (RefreshVideoOptions example_sdl example_fullscreen_graphics example_dialog)) = 0"
  by (simp add: RefreshVideoOptions_fullscreen_index GetOptionIndex_def SetOptionIndex_def
      example_fullscreen_graphics_def)

subsection \<open>The pending-apply flag and the Apply button\<close>

lemma HandleOptionChanged_needs_apply:
  "needs_apply (HandleOptionChanged sdl option st) =
     (needs_apply st \<or> (\<not> refreshing st \<and> HasTag option ''video''))"
  by (simp add: HandleOptionChanged_def Let_def FillRates_frame FillResolutions_frame
      ApplyGraphicsOptions_frame call_frame)

lemma HandleOptionChanged_button:
  "\<not> refreshing st \<Longrightarrow>
   enabled (btn_apply (HandleOptionChanged sdl option st)) =
     needs_apply (HandleOptionChanged sdl option st)"
  by (simp add: HandleOptionChanged_def Let_def FillRates_frame FillResolutions_frame
      ApplyGraphicsOptions_frame call_frame SetEnabled_def SetFocusMode_def)

lemma other_routines_keep_needs_apply:
  "needs_apply (RefreshGraphicsOptions renderer st) = needs_apply st"
  "needs_apply (ApplyGraphicsOptions st) = needs_apply st"
  "needs_apply (ApplyVideoOptions st) = needs_apply st"
  "needs_apply (HandleClosePressed st) = needs_apply st"
  "needs_apply (HandleTabChanged sdl graphics renderer index st) = needs_apply st"
     apply (simp add: RefreshGraphicsOptions_def RefreshGraphicsOptions_reentrant_def no_callback_def Let_def)
    apply (simp add: ApplyGraphicsOptions_frame)
   apply (simp add: ApplyVideoOptions_frame)
  apply (simp add: HandleClosePressed_def)
  apply (simp add: HandleTabChanged_def RefreshVideoOptions_needs_apply
      RefreshGraphicsOptions_def RefreshGraphicsOptions_reentrant_def no_callback_def Let_def)
  done

text \<open>
  C8. The claim: \<^verbatim>\<open>needs_apply_\<close> becomes true exactly when \<^verbatim>\<open>HandleOptionChanged\<close>
  processes, outside a refresh, a change of an option tagged \<^verbatim>\<open>video\<close>; only \<^verbatim>\<open>HandleApply\<close>
  clears it, after applying the video options; and after each of \<^verbatim>\<open>HandleOptionChanged\<close>,
  \<^verbatim>\<open>RefreshVideoOptions\<close> and \<^verbatim>\<open>HandleApply\<close> the enabled state of the Apply button equals
  \<^verbatim>\<open>needs_apply_\<close>. The flag behaves as claimed and the two other routines keep the button
  equal to it, but \<^verbatim>\<open>HandleApply\<close> clears the flag and leaves the button as it was.
\<close>

theorem HandleApply_clears_flag_not_button:
  "needs_apply (HandleApply (example_dialog\<lparr>needs_apply := True\<rparr>)) = False \<and>
   enabled (btn_apply (HandleApply (example_dialog\<lparr>needs_apply := True\<rparr>))) = True \<and>
   needs_apply (HandleApply st) = False \<and>
   enabled (btn_apply (HandleApply st)) = enabled (btn_apply st) \<and>
   needs_apply (HandleOptionChanged sdl option st) =
     (needs_apply st \<or> (\<not> refreshing st \<and> HasTag option ''video'')) \<and>
   needs_apply (RefreshVideoOptions sdl graphics st) = needs_apply st \<and>
   enabled (btn_apply (RefreshVideoOptions sdl graphics st)) =
     needs_apply (RefreshVideoOptions sdl graphics st) \<and>
   (if refreshing st then HandleOptionChanged sdl option st = st
    else enabled (btn_apply (HandleOptionChanged sdl option st)) =
           needs_apply (HandleOptionChanged sdl option st))"
proof -
  have "needs_apply (HandleApply st) = False"
    by (simp add: HandleApply_def)
  moreover have "enabled (btn_apply (HandleApply st)) = enabled (btn_apply st)"
    by (simp add: HandleApply_def ApplyVideoOptions_frame)
  moreover have "refreshing st \<Longrightarrow> HandleOptionChanged sdl option st = st"
    by (simp add: HandleOptionChanged_def)
  moreover have "needs_apply (HandleApply (example_dialog\<lparr>needs_apply := True\<rparr>)) = False"
    by (simp add: HandleApply_def)
  moreover have "enabled (btn_apply (HandleApply (example_dialog\<lparr>needs_apply := True\<rparr>))) = True"
    by (simp add: HandleApply_def ApplyVideoOptions_frame example_dialog_def)
  ultimately show ?thesis
    using HandleOptionChanged_needs_apply [of sdl option st]
      HandleOptionChanged_button [of st sdl option]
      RefreshVideoOptions_needs_apply [of sdl graphics st]
      RefreshVideoOptions_button [of sdl graphics st]
    by simp
qed

end
